theory Spec2Isabelle
  imports Main
begin

section \<open>JavaScript values used by the forms\<close>

text \<open>
  Form fields arrive as strings. A field declared optional in the TypeScript interface
  (\<^verbatim>\<open>codec?: string\<close>), or one whose form element is not rendered, is
  \<^verbatim>\<open>undefined\<close> at run time: such a field is a \<open>string option\<close>, with
  \<open>None\<close> for \<^verbatim>\<open>undefined\<close>. Strings are lists of code units.
\<close>

text \<open>JavaScript truthiness of a string: every string but the empty one.\<close>

definition truthy :: "string \<Rightarrow> bool" where
  "truthy s = (s \<noteq> [])"

text \<open>Truthiness of a possibly undefined string: \<^verbatim>\<open>undefined\<close> is falsy.\<close>

definition truthy_opt :: "string option \<Rightarrow> bool" where
  "truthy_opt v = (case v of None \<Rightarrow> False | Some s \<Rightarrow> truthy s)"

text \<open>\<^verbatim>\<open>v || d\<close> with a string literal \<open>d\<close> on the right.\<close>

definition or_default :: "string option \<Rightarrow> string \<Rightarrow> string" where
  "or_default v d = (case v of None \<Rightarrow> d | Some s \<Rightarrow> if truthy s then s else d)"

text \<open>A template-literal hole \<^verbatim>\<open>${v}\<close>: \<^verbatim>\<open>undefined\<close> prints as the word.\<close>

definition tmpl :: "string option \<Rightarrow> string" where
  "tmpl v = (case v of None \<Rightarrow> ''undefined'' | Some s \<Rightarrow> s)"

text \<open>
  The errors a submit handler can raise before it has built its argument list; both end
  in the handler's \<^verbatim>\<open>catch\<close> block, which shows a failure toast and spawns nothing.
\<close>

datatype error =
    TypeError                \<comment> \<open>raised by the runtime: a string operation on \<^verbatim>\<open>undefined\<close>\<close>
  | UnsupportedFileType      \<comment> \<open>\<^verbatim>\<open>throw new Error("Unsupported file type")\<close>\<close>

text \<open>The media kind held in the component state \<^verbatim>\<open>fileType\<close>; \<^verbatim>\<open>null\<close> is \<open>None\<close>.\<close>

datatype media = Video | Audio | Image

text \<open>What a handler hands to \<^verbatim>\<open>spawn\<close>, and the output path it announces.\<close>

record 'tok compiled =
  argv :: "'tok list"
  outputPath :: string


section \<open>The POSIX functions of Node's \<^verbatim>\<open>path\<close> module\<close>

text \<open>
  The handlers import \<^verbatim>\<open>basename\<close>, \<^verbatim>\<open>dirname\<close>, \<^verbatim>\<open>join\<close> and
  \<^verbatim>\<open>extname\<close> from Node's standard library. They are written here as list functions
  computing what the library's index loops compute (the extension runs on macOS, so the
  POSIX variant applies and the only separator is the slash).
\<close>

text \<open>
  The last path component: trailing slashes are skipped, then everything back to the
  previous slash is taken.
\<close>

definition last_component :: "string \<Rightarrow> string" where
  "last_component p =
     rev (takeWhile (\<lambda>c. c \<noteq> CHR ''/'') (dropWhile (\<lambda>c. c = CHR ''/'') (rev p)))"

text \<open>
  \<^verbatim>\<open>extname\<close>: from the last dot of the last component to its end; empty when the
  component has no dot, when nothing precedes the last dot, or when the component is
  \<^verbatim>\<open>..\<close>.
\<close>

definition extname :: "string \<Rightarrow> string" where
  "extname p =
     (let c = last_component p;
          afterDot = takeWhile (\<lambda>x. x \<noteq> CHR ''.'') (rev c);
          beforeDot = drop (Suc (length afterDot)) (rev c)
      in if CHR ''.'' \<notin> set c \<or> beforeDot = [] \<or> c = ''..'' then []
         else CHR ''.'' # rev afterDot)"

text \<open>
  \<^verbatim>\<open>basename(path, suffix)\<close>: the last component, with \<open>suffix\<close> removed when the
  component ends with it and is longer than it. The library matches the suffix from the
  right while it scans; when the component runs out before the suffix does, the scan's
  end index is never set and the slice runs to the end of the path, trailing slashes
  included.
\<close>

definition basename :: "string \<Rightarrow> string \<Rightarrow> string" where
  "basename p suffix =
     (let c = last_component p;
          trailing = takeWhile (\<lambda>x. x = CHR ''/'') (rev p)
      in if suffix = [] \<or> length p < length suffix then c
         else if suffix = p then []
         else if length suffix < length c \<and> drop (length c - length suffix) c = suffix
           then take (length c - length suffix) c
         else if length c < length suffix \<and> drop (length suffix - length c) suffix = c
           then c @ trailing
         else c)"

text \<open>
  \<^verbatim>\<open>dirname\<close>: the scan runs from the end down to index 1, skips trailing slashes and
  the last component, and cuts the path at the slash it then meets.
\<close>

definition dirname :: "string \<Rightarrow> string" where
  "dirname p =
     (if p = [] then ''.''
      else
        let hasRoot = (hd p = CHR ''/'');
            r = dropWhile (\<lambda>c. c \<noteq> CHR ''/'')
                  (dropWhile (\<lambda>c. c = CHR ''/'') (rev (tl p)))
        in if r = [] then (if hasRoot then ''/'' else ''.'')
           else if hasRoot \<and> length r = 1 then ''//''
           else take (length r) p)"

text \<open>\<^verbatim>\<open>s.split('/')\<close>: the pieces between slashes, empty pieces kept.\<close>

fun split_slash :: "string \<Rightarrow> string list" where
  "split_slash [] = [] # []"
| "split_slash (x # xs) =
     (if x = CHR ''/'' then [] # split_slash xs
      else (case split_slash xs of
              [] \<Rightarrow> [x] # []
            | s # ss \<Rightarrow> (x # s) # ss))"

text \<open>\<^verbatim>\<open>segments.join('/')\<close>.\<close>

fun join_slash :: "string list \<Rightarrow> string" where
  "join_slash [] = []"
| "join_slash [s] = s"
| "join_slash (s # t # ss) = s @ CHR ''/'' # join_slash (t # ss)"

text \<open>
  One step of the library's \<^verbatim>\<open>normalizeString\<close> on the segment that ends at a slash:
  empty segments and \<^verbatim>\<open>.\<close> are dropped; \<^verbatim>\<open>..\<close> removes the segment before it,
  unless there is none or it is itself \<^verbatim>\<open>..\<close>, in which case it is kept only when
  the path may climb above its start.
\<close>

definition push_segment :: "bool \<Rightarrow> string list \<Rightarrow> string \<Rightarrow> string list" where
  "push_segment allowAboveRoot res seg =
     (if seg = [] \<or> seg = ''.'' then res
      else if seg = ''..'' then
        (if res \<noteq> [] \<and> last res \<noteq> ''..'' then butlast res
         else if allowAboveRoot then res @ [''..'']
         else res)
      else res @ [seg])"

definition normalizeString :: "string \<Rightarrow> bool \<Rightarrow> string" where
  "normalizeString path allowAboveRoot =
     join_slash (foldl (push_segment allowAboveRoot) [] (split_slash path))"

text \<open>\<^verbatim>\<open>normalize\<close>.\<close>

definition normalize_path :: "string \<Rightarrow> string" where
  "normalize_path path =
     (if path = [] then ''.''
      else
        let isAbsolute = (hd path = CHR ''/'');
            trailingSeparator = (last path = CHR ''/'');
            p = normalizeString path (\<not> isAbsolute)
        in if p = [] then
             (if isAbsolute then ''/'' else if trailingSeparator then ''./'' else ''.'')
           else (if isAbsolute then ''/'' else []) @ p
                  @ (if trailingSeparator then ''/'' else []))"

text \<open>\<^verbatim>\<open>join(...args)\<close>: the non-empty arguments, slash-separated, then normalised.\<close>

definition join :: "string list \<Rightarrow> string" where
  "join args =
     (let parts = filter (\<lambda>a. a \<noteq> []) args
      in if parts = [] then ''.'' else normalize_path (join_slash parts))"

text \<open>
  \<^verbatim>\<open>values.inputFile[0]\<close>, as the path functions receive it: on an empty selection
  the element is \<^verbatim>\<open>undefined\<close> and \<^verbatim>\<open>extname\<close> (or \<^verbatim>\<open>basename\<close>) raises a
  \<^verbatim>\<open>TypeError\<close> on its first use, before any argument is built.
\<close>

definition first_file :: "string list \<Rightarrow> error + string" where
  "first_file files = (case files of [] \<Rightarrow> Inl TypeError | f # _ \<Rightarrow> Inr f)"


section \<open>The Convert command (\<^verbatim>\<open>src/convert.tsx\<close>)\<close>

record ConvertFormValues =
  inputFile :: "string list"
  format :: "string option"     \<comment> \<open>undefined while no format dropdown is rendered\<close>
  codec :: "string option"
  quality :: "string option"
  maintainQuality :: bool       \<comment> \<open>only ever tested for truth; undefined reads as false\<close>

text \<open>The component state the handler closes over.\<close>

record convert_state =
  defaultFile :: "string list"
  fileType :: "media option"
  maintainQualityBox :: bool    \<comment> \<open>the state variable \<^verbatim>\<open>maintainQuality\<close>\<close>

text \<open>
  The three branches of \<^verbatim>\<open>handleSubmit\<close> return the tokens pushed onto
  \<^verbatim>\<open>args\<close> and the text appended to \<^verbatim>\<open>outputName\<close>.
\<close>

definition convert_video :: "ConvertFormValues \<Rightarrow> string list \<times> string" where
  "convert_video values =
     (if ConvertFormValues.codec values = Some ''libvpx-vp9'' then
        (let (a1, n1) =
               (if \<not> ConvertFormValues.maintainQuality values then
                  ([''-crf'', or_default (ConvertFormValues.quality values) ''30'', ''-row-mt'', ''1''],
                   ''.'' @ tmpl (ConvertFormValues.codec values) @ ''.q''
                     @ or_default (ConvertFormValues.quality values) ''30'')
                else
                  ([''-crf'', ''0'', ''-row-mt'', ''1'', ''-cpu-used'', ''0''],
                   ''.'' @ tmpl (ConvertFormValues.codec values) @ ''.lossless''))
         in ([''-c:v'', ''libvpx-vp9'', ''-b:v'', ''0''] @ a1 @ [''-c:a'', ''libopus''], n1))
      else if truthy_opt (ConvertFormValues.codec values)
              \<and> ConvertFormValues.codec values \<noteq> Some ''copy'' then
        (let c = tmpl (ConvertFormValues.codec values);
             x26 = (c = ''libx264'' \<or> c = ''libx265'');
             (a1, n1) =
               (if \<not> ConvertFormValues.maintainQuality values then
                  (if x26 then
                     ([''-crf'', or_default (ConvertFormValues.quality values) ''23''],
                      ''.q'' @ or_default (ConvertFormValues.quality values) ''23'')
                   else ([], []))
                else
                  (if x26 then ([''-crf'', ''0'', ''-preset'', ''veryslow''], ''.lossless'')
                   else ([], [])))
         in ([''-c:v'', c] @ a1 @ [''-c:a'', ''copy''], ''.'' @ c @ n1))
      else ([''-c:v'', ''copy'', ''-c:a'', ''copy''], []))"

definition convert_audio :: "ConvertFormValues \<Rightarrow> string list \<times> string" where
  "convert_audio values =
     (if \<not> ConvertFormValues.maintainQuality values then
        (if truthy_opt (ConvertFormValues.quality values) then
           ([''-b:a'', tmpl (ConvertFormValues.quality values) @ ''k''],
            ''.'' @ tmpl (ConvertFormValues.quality values) @ ''k'')
         else ([], []))
      else ([''-c:a'', ''flac'', ''-compression_level'', ''12''], ''.lossless''))"

definition convert_image :: "ConvertFormValues \<Rightarrow> string list \<times> string" where
  "convert_image values =
     (if \<not> ConvertFormValues.maintainQuality values then
        (if truthy_opt (ConvertFormValues.quality values) then
           ([''-q:v'', tmpl (ConvertFormValues.quality values)],
            ''.q'' @ tmpl (ConvertFormValues.quality values))
         else ([], []))
      else ([''-q:v'', ''1''], ''.max''))"

definition convert_handleSubmit ::
  "convert_state \<Rightarrow> ConvertFormValues \<Rightarrow> error + string compiled" where
  "convert_handleSubmit st values =
     (case first_file (ConvertFormValues.inputFile values) of
        Inl e \<Rightarrow> Inl e
      | Inr inputPath \<Rightarrow>
          let baseFileName = basename inputPath (extname inputPath);
              (pushed, suffix) =
                (case fileType st of
                   Some Video \<Rightarrow> convert_video values
                 | Some Audio \<Rightarrow> convert_audio values
                 | Some Image \<Rightarrow> convert_image values
                 | None \<Rightarrow> ([], []));
              outputName = baseFileName @ suffix;
              outputPath = join [dirname inputPath,
                                 outputName @ ''.'' @ tmpl (ConvertFormValues.format values)]
          in Inr \<lparr> argv = [''-i'', inputPath] @ pushed @ [''-y'', outputPath],
                   outputPath = outputPath \<rparr>)"


section \<open>The Resolution Video command\<close>

record ResolutionVideoFormValues =
  inputFile :: "string list"
  width :: string
  height :: string
  maintainAspectRatio :: bool
  preset :: string
  filter :: string
  keepAudioBitrate :: bool

record picker_state =
  defaultFile :: "string list"

definition resolution_video_handleSubmit ::
  "picker_state \<Rightarrow> ResolutionVideoFormValues \<Rightarrow> error + string compiled" where
  "resolution_video_handleSubmit st values =
     (case first_file (ResolutionVideoFormValues.inputFile values) of
        Inl e \<Rightarrow> Inl e
      | Inr inputPath \<Rightarrow>
          let extension = extname inputPath;
              baseFileName = basename inputPath extension;
              w = ResolutionVideoFormValues.width values;
              h = ResolutionVideoFormValues.height values;
              resolution =
                (if ResolutionVideoFormValues.maintainAspectRatio values then w @ ''p''
                 else w @ ''x'' @ h);
              presetSuffix =
                (if ResolutionVideoFormValues.preset values \<noteq> ''medium''
                 then ''.'' @ ResolutionVideoFormValues.preset values else []);
              outputPath = join [dirname inputPath,
                                 baseFileName @ ''.'' @ resolution @ presetSuffix @ extension];
              scaleFilter =
                (if ResolutionVideoFormValues.maintainAspectRatio values
                 then ''scale='' @ w @ '':-2:flags='' @ ResolutionVideoFormValues.filter values
                 else ''scale='' @ w @ '':'' @ h @ '':flags=''
                        @ ResolutionVideoFormValues.filter values);
              args = [''-i'', inputPath, ''-vf'', scaleFilter,
                      ''-preset'', ResolutionVideoFormValues.preset values];
              args = (if ResolutionVideoFormValues.keepAudioBitrate values
                      then args @ [''-c:a'', ''copy''] else args)
          in Inr \<lparr> argv = args @ [''-y'', outputPath], outputPath = outputPath \<rparr>)"


section \<open>The Resize Image command\<close>

record ResizeImageFormValues =
  inputFile :: "string list"
  width :: string
  height :: string
  maintainAspectRatio :: bool
  quality :: string
  filter :: string

definition resize_image_handleSubmit ::
  "picker_state \<Rightarrow> ResizeImageFormValues \<Rightarrow> error + string compiled" where
  "resize_image_handleSubmit st values =
     (case first_file (ResizeImageFormValues.inputFile values) of
        Inl e \<Rightarrow> Inl e
      | Inr inputPath \<Rightarrow>
          let extension = extname inputPath;
              baseFileName = basename inputPath extension;
              w = ResizeImageFormValues.width values;
              h = ResizeImageFormValues.height values;
              resolution =
                (if ResizeImageFormValues.maintainAspectRatio values then w @ ''w''
                 else w @ ''x'' @ h);
              qualitySuffix =
                (if truthy (ResizeImageFormValues.quality values)
                 then ''.q'' @ ResizeImageFormValues.quality values else []);
              outputPath = join [dirname inputPath,
                                 baseFileName @ ''.'' @ resolution @ qualitySuffix @ extension];
              scaleFilter =
                (if ResizeImageFormValues.maintainAspectRatio values
                 then ''scale='' @ w @ '':-1:flags='' @ ResizeImageFormValues.filter values
                 else ''scale='' @ w @ '':'' @ h @ '':flags=''
                        @ ResizeImageFormValues.filter values);
              args = [''-i'', inputPath, ''-vf'', scaleFilter];
              args = (if truthy (ResizeImageFormValues.quality values)
                      then args @ [''-q:v'', ResizeImageFormValues.quality values] else args)
          in Inr \<lparr> argv = args @ [''-y'', outputPath], outputPath = outputPath \<rparr>)"


section \<open>The Speed command\<close>

text \<open>
  The handler parses the speed fields with \<^verbatim>\<open>parseFloat\<close>, divides, compares with
  \<^verbatim>\<open>!==\<close> and prints numbers into template literals. These are primitives of the
  language on IEEE doubles, not code of the extension; the handler takes them as a
  parameter, over any type \<open>'n\<close> of numbers, and what is proved of it holds for every
  choice of them.
\<close>

record 'n number_ops =
  parseFloat :: "string \<Rightarrow> 'n"
  numberToString :: "'n \<Rightarrow> string"        \<comment> \<open>a number in a template hole\<close>
  strictNotEqual :: "'n \<Rightarrow> 'n \<Rightarrow> bool"    \<comment> \<open>\<^verbatim>\<open>a !== b\<close>\<close>
  oneOver :: "'n \<Rightarrow> 'n"                    \<comment> \<open>\<^verbatim>\<open>1 / x\<close>\<close>

record SpeedFormValues =
  inputFile :: "string list"
  speed :: string
  maintainPitch :: bool                     \<comment> \<open>only tested for truth\<close>
  customAudioSpeed :: "string option"

record media_state =
  defaultFile :: "string list"
  fileType :: "media option"

definition speed_handleSubmit ::
  "'n number_ops \<Rightarrow> media_state \<Rightarrow> SpeedFormValues \<Rightarrow> error + string compiled" where
  "speed_handleSubmit ops st values =
     (case first_file (SpeedFormValues.inputFile values) of
        Inl e \<Rightarrow> Inl e
      | Inr inputPath \<Rightarrow>
          let extension = extname inputPath;
              baseFileName = basename inputPath extension;
              speed = parseFloat ops (SpeedFormValues.speed values)
          in if media_state.fileType st = Some Video then
               let audioSpeed =
                     (if truthy_opt (customAudioSpeed values)
                      then parseFloat ops (tmpl (customAudioSpeed values)) else speed);
                   speedSuffix = numberToString ops speed @ ''x'';
                   speedSuffix =
                     (if strictNotEqual ops audioSpeed speed
                      then speedSuffix @ ''.a'' @ numberToString ops audioSpeed @ ''x''
                      else speedSuffix);
                   speedSuffix =
                     (if maintainPitch values then speedSuffix @ ''.pitch'' else speedSuffix);
                   outputPath = join [dirname inputPath,
                                      baseFileName @ ''.'' @ speedSuffix @ extension];
                   pts = oneOver ops speed;
                   videoFilter = ''setpts='' @ numberToString ops pts @ ''*PTS'';
                   audioFilter =
                     (if maintainPitch values
                      then ''asetrate=44100*'' @ numberToString ops audioSpeed
                             @ '',aresample=44100,atempo=1''
                      else ''atempo='' @ numberToString ops audioSpeed)
               in Inr \<lparr> argv = [''-i'', inputPath, ''-filter:v'', videoFilter,
                                 ''-filter:a'', audioFilter] @ [''-y'', outputPath],
                        outputPath = outputPath \<rparr>
             else
               let speedSuffix = numberToString ops speed @ ''x'';
                   outputPath = join [dirname inputPath,
                                      baseFileName @ ''.'' @ speedSuffix @ extension]
               in Inr \<lparr> argv = [''-i'', inputPath, ''-filter:a'',
                                 ''atempo='' @ numberToString ops speed] @ [''-y'', outputPath],
                        outputPath = outputPath \<rparr>)"


section \<open>The unified Resize command\<close>

datatype resize_kind = ImageFile | VideoFile   \<comment> \<open>\<^verbatim>\<open>"image" | "video"\<close>\<close>

record ResizeFormValues =
  inputFile :: "string list"
  width :: string
  height :: "string option"
  maintainAspectRatio :: bool
  filter :: string
  fileType :: resize_kind
  quality :: "string option"
  preset :: "string option"
  keepAudioBitrate :: bool                  \<comment> \<open>only tested for truth\<close>

record resize_state =
  defaultFile :: "string list"
  fileType :: resize_kind

text \<open>The character class \<^verbatim>\<open>[a-zA-Z0-9\.-]\<close> of the sanitising pattern.\<close>

definition resolution_char :: "char \<Rightarrow> bool" where
  "resolution_char c =
     (let n = (of_char c :: nat)
      in (97 \<le> n \<and> n \<le> 122) \<or> (65 \<le> n \<and> n \<le> 90) \<or> (48 \<le> n \<and> n \<le> 57)
         \<or> c = CHR ''.'' \<or> c = CHR ''-'')"

text \<open>\<^verbatim>\<open>resolution.replace(/[^a-zA-Z0-9\.-]/g, '')\<close>.\<close>

definition sanitize :: "string \<Rightarrow> string" where
  "sanitize s = List.filter resolution_char s"

definition resize_handleSubmit ::
  "resize_state \<Rightarrow> ResizeFormValues \<Rightarrow> error + string compiled" where
  "resize_handleSubmit st values =
     (case first_file (ResizeFormValues.inputFile values) of
        Inl e \<Rightarrow> Inl e
      | Inr inputPath \<Rightarrow>
          let extension = extname inputPath;
              baseFileName = basename inputPath extension;
              w = ResizeFormValues.width values;
              isVideo = (ResizeFormValues.fileType values = VideoFile);
              isImage = (ResizeFormValues.fileType values = ImageFile);
              (resolution, scaleFilter) =
                (if isVideo then
                   (w @ ''p'', ''scale='' @ w @ '':-2:flags='' @ ResizeFormValues.filter values)
                 else if truthy_opt (ResizeFormValues.height values)
                         \<and> \<not> ResizeFormValues.maintainAspectRatio values then
                   (w @ ''x'' @ tmpl (ResizeFormValues.height values),
                    ''scale='' @ w @ '':'' @ tmpl (ResizeFormValues.height values)
                      @ '':flags='' @ ResizeFormValues.filter values)
                 else
                   (w @ ''w'', ''scale='' @ w @ '':-1:flags='' @ ResizeFormValues.filter values));
              qualitySuffix =
                (if isImage \<and> truthy_opt (ResizeFormValues.quality values)
                 then ''.q'' @ tmpl (ResizeFormValues.quality values) else []);
              presetSuffix =
                (if isVideo \<and> ResizeFormValues.preset values \<noteq> Some ''medium''
                 then ''.'' @ tmpl (ResizeFormValues.preset values) else []);
              sanitizedResolution = sanitize resolution;
              outputPath = join [dirname inputPath,
                                 baseFileName @ ''.'' @ sanitizedResolution @ qualitySuffix
                                   @ presetSuffix @ extension];
              args = [''-i'', inputPath, ''-vf'', scaleFilter];
              args =
                (if isImage \<and> truthy_opt (ResizeFormValues.quality values) then
                   args @ [''-q:v'', tmpl (ResizeFormValues.quality values)]
                 else if isVideo then
                   args @ [''-preset'', or_default (ResizeFormValues.preset values) ''medium'']
                     @ (if ResizeFormValues.keepAudioBitrate values then [''-c:a'', ''copy'']
                        else [])
                 else args)
          in Inr \<lparr> argv = args @ [''-y'', outputPath], outputPath = outputPath \<rparr>)"


section \<open>The Compress command\<close>

record CompressFormValues =
  inputFile :: "string list"
  quality :: string
  preset :: string

text \<open>The table \<^verbatim>\<open>QUALITY_PRESETS\<close>, one object per media kind.\<close>

definition QUALITY_PRESETS :: "media \<Rightarrow> (string \<times> string) list" where
  "QUALITY_PRESETS kind =
     (case kind of
        Video \<Rightarrow> [(''lossless'', ''0''), (''high'', ''18''), (''medium'', ''23''),
                  (''low'', ''28''), (''very low'', ''33'')]
      | Audio \<Rightarrow> [(''lossless'', ''320''), (''high'', ''256''), (''medium'', ''192''),
                  (''low'', ''128''), (''very low'', ''96'')]
      | Image \<Rightarrow> [(''lossless'', ''2''), (''high'', ''5''), (''medium'', ''10''),
                  (''low'', ''15''), (''very low'', ''20'')])"

text \<open>
  \<^verbatim>\<open>values.quality || QUALITY_PRESETS[fileType][values.preset]\<close>. The right operand is
  evaluated only when the quality field is empty. Then \<^verbatim>\<open>QUALITY_PRESETS[null]\<close> is
  \<^verbatim>\<open>undefined\<close> and reading a property of it raises; a key the object lacks reads as
  \<^verbatim>\<open>undefined\<close>, which is the value \<open>None\<close>. (The preset dropdown offers the five
  keys only; the properties an object literal inherits, such as \<^verbatim>\<open>toString\<close>, are
  not in the table.)
\<close>

definition qualityValue :: "media option \<Rightarrow> CompressFormValues \<Rightarrow> error + string option" where
  "qualityValue ft values =
     (if truthy (CompressFormValues.quality values)
      then Inr (Some (CompressFormValues.quality values))
      else (case ft of
              None \<Rightarrow> Inl TypeError
            | Some kind \<Rightarrow>
                Inr (map_of (QUALITY_PRESETS kind) (CompressFormValues.preset values))))"

text \<open>
  The argument list holds \<^verbatim>\<open>qualityValue\<close> itself in the video and image cases, so
  its tokens are possibly undefined strings.
\<close>

definition compress_handleSubmit ::
  "media_state \<Rightarrow> CompressFormValues \<Rightarrow> error + string option compiled" where
  "compress_handleSubmit st values =
     (case first_file (CompressFormValues.inputFile values) of
        Inl e \<Rightarrow> Inl e
      | Inr inputPath \<Rightarrow>
          let extension = extname inputPath;
              baseFileName = basename inputPath extension
          in (case qualityValue (media_state.fileType st) values of
               Inl e \<Rightarrow> Inl e
             | Inr q \<Rightarrow>
                 (case media_state.fileType st of
                    Some Video \<Rightarrow>
                      let outputPath = join [dirname inputPath,
                                             baseFileName @ ''.crf'' @ tmpl q @ extension]
                      in Inr \<lparr> argv = [Some ''-i'', Some inputPath, Some ''-crf'', q,
                                        Some ''-preset'', Some ''medium'']
                                       @ [Some ''-y'', Some outputPath],
                               outputPath = outputPath \<rparr>
                  | Some Audio \<Rightarrow>
                      let outputPath = join [dirname inputPath,
                                             baseFileName @ ''.'' @ tmpl q @ ''kbps'' @ extension]
                      in Inr \<lparr> argv = [Some ''-i'', Some inputPath, Some ''-b:a'',
                                        Some (tmpl q @ ''k'')]
                                       @ [Some ''-y'', Some outputPath],
                               outputPath = outputPath \<rparr>
                  | Some Image \<Rightarrow>
                      let outputPath = join [dirname inputPath,
                                             baseFileName @ ''.q'' @ tmpl q @ extension]
                      in Inr \<lparr> argv = [Some ''-i'', Some inputPath, Some ''-q:v'', q]
                                       @ [Some ''-y'', Some outputPath],
                               outputPath = outputPath \<rparr>
                  | None \<Rightarrow> Inl UnsupportedFileType)))"


section \<open>Well-formed requests\<close>

text \<open>
  The file picker hands the handlers the absolute path of an existing file: a slash before
  each of one or more names, none of them empty, \<^verbatim>\<open>.\<close> or \<^verbatim>\<open>..\<close>.
\<close>

definition proper_name :: "string \<Rightarrow> bool" where
  "proper_name s = (s \<noteq> [] \<and> CHR ''/'' \<notin> set s \<and> s \<noteq> ''.'' \<and> s \<noteq> ''..'')"

definition abs_path :: "string list \<Rightarrow> string" where
  "abs_path segs = concat (map (\<lambda>s. CHR ''/'' # s) segs)"

definition absolute_file_path :: "string \<Rightarrow> bool" where
  "absolute_file_path p =
     (case split_slash p of
        [] \<Rightarrow> False
      | r # segs \<Rightarrow> r = [] \<and> segs \<noteq> [] \<and> list_all proper_name segs)"


text \<open>An option value that can be spliced into a file name without adding a directory level.\<close>

definition slash_free :: "string \<Rightarrow> bool" where
  "slash_free s = (CHR ''/'' \<notin> set s)"

text \<open>
  The frame every argument list is expected to have: the input flag and the input path in
  front, the overwrite flag and the output path at the end.
\<close>

definition framed :: "string \<Rightarrow> string \<Rightarrow> string option list \<Rightarrow> bool" where
  "framed inputPath out args =
     (take 2 args = [Some ''-i'', Some inputPath]
      \<and> drop (length args - 2) args = [Some ''-y'', Some out])"

text \<open>
  The number primitives on the values the Speed dropdown offers, each number standing as
  its printed form (\<^verbatim>\<open>parseFloat("2.0")\<close> prints as \<^verbatim>\<open>2\<close>, and one over it as
  \<^verbatim>\<open>0.5\<close>); every other text is sent to \<^verbatim>\<open>NaN\<close>, which differs from itself.
  This table instantiates the parameter of the Speed handler in the examples.
\<close>

definition dropdown_numbers :: "string number_ops" where
  "dropdown_numbers =
     \<lparr> parseFloat = (\<lambda>s. case map_of [(''0.25'', ''0.25''), (''0.5'', ''0.5''),
                                         (''0.75'', ''0.75''), (''1.5'', ''1.5''),
                                         (''2.0'', ''2''), (''3.0'', ''3''), (''4.0'', ''4'')] s of
                            Some n \<Rightarrow> n | None \<Rightarrow> ''NaN''),
       numberToString = (\<lambda>n. n),
       strictNotEqual = (\<lambda>a b. a \<noteq> b \<or> a = ''NaN''),
       oneOver = (\<lambda>n. case map_of [(''0.25'', ''4''), (''0.5'', ''2''),
                                     (''0.75'', ''1.3333333333333333''),
                                     (''1.5'', ''0.6666666666666666''),
                                     (''2'', ''0.5''), (''3'', ''0.3333333333333333''),
                                     (''4'', ''0.25'')] n of
                         Some r \<Rightarrow> r | None \<Rightarrow> ''NaN'') \<rparr>"


section \<open>Facts about the path functions\<close>

lemma split_slash_nonempty: "split_slash p \<noteq> []"
  by (induction p) (auto split: list.splits)

lemma join_slash_Cons: "ss \<noteq> [] \<Longrightarrow> join_slash (s # ss) = s @ CHR ''/'' # join_slash ss"
  by (cases ss) auto

lemma join_slash_split_slash: "join_slash (split_slash p) = p"
proof (induction p)
  case Nil
  show ?case by simp
next
  case (Cons x xs)
  obtain h t where ht: "split_slash xs = h # t"
    using split_slash_nonempty [of xs] by (cases "split_slash xs") auto
  show ?case
  proof (cases "x = CHR ''/''")
    case True
    then show ?thesis using Cons ht by simp
  next
    case False
    then show ?thesis using Cons ht by (cases t) auto
  qed
qed

lemma split_slash_append_free:
  "CHR ''/'' \<notin> set s \<Longrightarrow>
     split_slash (s @ t) = (s @ hd (split_slash t)) # tl (split_slash t)"
  using split_slash_nonempty [of t] by (induction s) (auto split: list.splits)

lemma split_slash_abs_path:
  "list_all (\<lambda>s. CHR ''/'' \<notin> set s) segs \<Longrightarrow> split_slash (abs_path segs) = [] # segs"
  by (induction segs) (auto simp: abs_path_def split_slash_append_free)

lemma abs_path_join_slash: "segs \<noteq> [] \<Longrightarrow> abs_path segs = CHR ''/'' # join_slash segs"
proof (induction segs)
  case Nil
  then show ?case by simp
next
  case (Cons s segs)
  then show ?case by (cases segs) (auto simp: abs_path_def)
qed

lemma abs_path_snoc: "abs_path (segs @ [c]) = abs_path segs @ CHR ''/'' # c"
  by (simp add: abs_path_def)

lemma absolute_file_pathD:
  assumes "absolute_file_path p"
  obtains segs c where "list_all proper_name segs" "proper_name c" "p = abs_path (segs @ [c])"
proof -
  obtain r ss where sp: "split_slash p = r # ss"
    using split_slash_nonempty [of p] by (cases "split_slash p") auto
  with assms have r: "r = []" and ss: "ss \<noteq> []" "list_all proper_name ss"
    by (auto simp: absolute_file_path_def)
  have "p = join_slash ([] # ss)"
    using join_slash_split_slash [of p] sp r by simp
  then have p: "p = abs_path ss"
    using ss(1) by (simp add: join_slash_Cons abs_path_join_slash)
  from ss(1) have "ss = butlast ss @ [last ss]" by simp
  moreover have "list_all proper_name (butlast ss)" "proper_name (last ss)"
    using ss by (auto simp: list_all_iff dest: in_set_butlastD)
  ultimately show thesis using that p by metis
qed

lemma foldl_push_proper:
  "list_all proper_name segs \<Longrightarrow> foldl (push_segment b) acc segs = acc @ segs"
  by (induction segs arbitrary: acc) (auto simp: push_segment_def proper_name_def)

lemma normalize_abs_path:
  assumes "list_all proper_name segs" "segs \<noteq> []"
  shows "normalize_path (abs_path segs) = abs_path segs"
proof -
  have free: "list_all (\<lambda>s. CHR ''/'' \<notin> set s) segs"
    using assms(1) by (auto simp: list_all_iff proper_name_def)
  have eq: "abs_path segs = CHR ''/'' # join_slash segs"
    using assms(2) by (rule abs_path_join_slash)
  have ns: "normalizeString (abs_path segs) False = join_slash segs"
    using split_slash_abs_path [OF free] foldl_push_proper [OF assms(1), of False "[]"]
    by (simp add: normalizeString_def push_segment_def)
  have "last segs \<noteq> []" "CHR ''/'' \<notin> set (last segs)"
    using assms by (auto simp: list_all_iff proper_name_def)
  then have "last (last segs) \<noteq> CHR ''/''" 
    using last_in_set by metis
  moreover have "last (abs_path segs) = last (last segs)"
    using assms(2) \<open>last segs \<noteq> []\<close> 
    by (induction segs) (auto simp: abs_path_def)
  ultimately have tr: "last (abs_path segs) \<noteq> CHR ''/''" by simp
  have ne: "join_slash segs \<noteq> []"
    using assms(2) \<open>last segs \<noteq> []\<close> by (induction segs rule: join_slash.induct) auto
  have hd: "hd (abs_path segs) = CHR ''/''" "abs_path segs \<noteq> []"
    using eq by simp_all
  show ?thesis
    by (simp add: normalize_path_def Let_def ns hd tr ne) (simp add: eq)
qed


lemma last_component_snoc:
  assumes "c \<noteq> []" "CHR ''/'' \<notin> set c"
  shows "last_component (d @ CHR ''/'' # c) = c"
proof -
  have "last c \<in> set c" using assms(1) by simp
  then have "last c \<noteq> CHR ''/''" using assms(2) by metis
  then have hd: "hd (rev c) \<noteq> CHR ''/''" "rev c \<noteq> []"
    using assms(1) by (simp_all add: hd_rev)
  then have "dropWhile (\<lambda>x. x = CHR ''/'') (rev c @ CHR ''/'' # rev d) = rev c @ CHR ''/'' # rev d"
    by (cases "rev c") auto
  moreover have "takeWhile (\<lambda>x. x \<noteq> CHR ''/'') (rev c @ CHR ''/'' # rev d) = rev c"
  proof -
    have "\<And>x. x \<in> set (rev c) \<Longrightarrow> x \<noteq> CHR ''/''" using assms(2) by auto
    then have "takeWhile (\<lambda>x. x \<noteq> CHR ''/'') (rev c @ CHR ''/'' # rev d)
                 = rev c @ takeWhile (\<lambda>x. x \<noteq> CHR ''/'') (CHR ''/'' # rev d)"
      by (rule takeWhile_append2)
    then show ?thesis by simp
  qed
  ultimately show ?thesis by (simp add: last_component_def)
qed

lemma extname_split:
  assumes "last_component p = c"
  shows "\<exists>stem. c = stem @ extname p \<and> (c \<noteq> [] \<longrightarrow> stem \<noteq> [])
           \<and> (extname p = [] \<or> (hd (extname p) = CHR ''.'' \<and> CHR ''.'' \<notin> set (tl (extname p))))"
proof (cases "CHR ''.'' \<in> set c")
  case False
  then show ?thesis using assms by (simp add: extname_def)
next
  case True
  define a where "a = takeWhile (\<lambda>x. x \<noteq> CHR ''.'') (rev c)"
  define b where "b = drop (Suc (length a)) (rev c)"
  define dw where "dw = dropWhile (\<lambda>x. x \<noteq> CHR ''.'') (rev c)"
  have dwne: "dw \<noteq> []"
    unfolding dw_def using True by (simp add: dropWhile_eq_Nil_conv)
  have "\<not> hd dw \<noteq> CHR ''.''"
    unfolding dw_def using dwne [unfolded dw_def] by (rule hd_dropWhile)
  then have "dw = CHR ''.'' # tl dw" using dwne by (cases dw) auto
  moreover have "rev c = a @ dw" unfolding a_def dw_def by simp
  ultimately obtain b' where rc2': "rev c = a @ CHR ''.'' # b'" by metis
  have b: "b = b'" unfolding b_def using rc2' by simp
  have rc2: "rev c = a @ CHR ''.'' # b" using rc2' b by simp
  have "rev (rev c) = rev (a @ CHR ''.'' # b)" using rc2 by simp
  then have c: "c = rev b @ CHR ''.'' # rev a" by simp
  have nodot: "CHR ''.'' \<notin> set (rev a)"
    unfolding a_def using set_takeWhileD by fastforce
  show ?thesis
  proof (cases "b = [] \<or> c = ''..''")
    case True
    then have "extname p = []" using assms by (auto simp: extname_def Let_def a_def b_def)
    then show ?thesis by simp
  next
    case False
    then have "extname p = CHR ''.'' # rev a"
      using assms \<open>CHR ''.'' \<in> set c\<close> by (auto simp: extname_def Let_def a_def b_def)
    then show ?thesis using c False nodot by auto
  qed
qed

lemma basename_extname:
  assumes lc: "last_component p = c" and c: "c = stem @ extname p" and stem: "stem \<noteq> []"
    and len: "length c \<le> length p"
  shows "basename p (extname p) = stem"
proof (cases "extname p = []")
  case True
  then show ?thesis using lc c by (simp add: basename_def)
next
  case False
  have l1: "length (extname p) < length c" using c stem by simp
  then have l2: "\<not> length p < length (extname p)" "extname p \<noteq> p" using len by auto
  have d: "drop (length c - length (extname p)) c = extname p"
    "take (length c - length (extname p)) c = stem"
    using c by (metis add_diff_cancel_right' append_eq_conv_conj length_append)+
  show ?thesis
    using False l1 l2 d lc by (simp add: basename_def Let_def)
qed

lemma dirname_abs_path_snoc:
  assumes segs: "list_all proper_name segs" and c: "c \<noteq> []" "CHR ''/'' \<notin> set c"
  shows "dirname (abs_path (segs @ [c])) = (if segs = [] then ''/'' else abs_path segs)"
proof (cases "segs = []")
  case True
  have r: "dropWhile (\<lambda>x. x \<noteq> CHR ''/'') (dropWhile (\<lambda>x. x = CHR ''/'') (rev c)) = []"
    unfolding dropWhile_eq_Nil_conv using c(2) set_dropWhileD by fastforce
  have p: "abs_path (segs @ [c]) = CHR ''/'' # c" using True by (simp add: abs_path_def)
  have "dirname (CHR ''/'' # c) = ''/''"
    by (simp add: dirname_def Let_def r)
  then show ?thesis using True p by simp
next
  case False
  then obtain s ss where sss: "segs = s # ss" by (cases segs) auto
  then have "s \<noteq> []" using segs by (simp add: proper_name_def)
  define d where "d = s @ abs_path ss"
  have d: "abs_path segs = CHR ''/'' # d" "d \<noteq> []"
    using \<open>s \<noteq> []\<close> by (simp_all add: sss d_def abs_path_def)
  have "last c \<in> set c" using c(1) by simp
  then have "last c \<noteq> CHR ''/''" using c(2) by metis
  then have "hd (rev c) \<noteq> CHR ''/''" "rev c \<noteq> []" using c(1) by (simp_all add: hd_rev)
  then have 1: "dropWhile (\<lambda>x. x = CHR ''/'') (rev c @ CHR ''/'' # rev d) = rev c @ CHR ''/'' # rev d"
    by (cases "rev c") auto
  have "\<And>x. x \<in> set (rev c) \<Longrightarrow> x \<noteq> CHR ''/''" using c(2) by auto
  then have "dropWhile (\<lambda>x. x \<noteq> CHR ''/'') (rev c @ CHR ''/'' # rev d)
               = dropWhile (\<lambda>x. x \<noteq> CHR ''/'') (CHR ''/'' # rev d)"
    by (rule dropWhile_append2)
  then have 2: "dropWhile (\<lambda>x. x \<noteq> CHR ''/'') (rev c @ CHR ''/'' # rev d) = CHR ''/'' # rev d"
    by simp
  have p: "abs_path (segs @ [c]) = CHR ''/'' # d @ CHR ''/'' # c"
    using d by (simp add: abs_path_snoc)
  show ?thesis
    using False d by (simp add: dirname_def p 1 2 Let_def)
qed

lemma join_dirname:
  assumes segs: "list_all proper_name segs" and c: "c \<noteq> []" "CHR ''/'' \<notin> set c"
    and n: "proper_name n"
  shows "join [dirname (abs_path (segs @ [c])), n] = abs_path (segs @ [n])"
proof -
  have all: "list_all proper_name (segs @ [n])" using segs n by simp
  have nn: "n \<noteq> []" using n by (simp add: proper_name_def)
  show ?thesis
  proof (cases "segs = []")
    case True
    have "normalize_path (CHR ''/'' # CHR ''/'' # n) = CHR ''/'' # n"
    proof -
      have free: "CHR ''/'' \<notin> set n" using n by (simp add: proper_name_def)
      have "split_slash n = [n]"
        using split_slash_append_free [OF free, of "[]"] by simp
      then have "normalizeString (CHR ''/'' # CHR ''/'' # n) False = n"
        using n by (simp add: normalizeString_def push_segment_def proper_name_def)
      moreover have "last n \<noteq> CHR ''/''" using free nn last_in_set by metis
      ultimately show ?thesis using nn by (simp add: normalize_path_def Let_def)
    qed
    then show ?thesis
      using True nn dirname_abs_path_snoc [OF segs c]
      by (simp add: join_def abs_path_def)
  next
    case False
    then have "abs_path segs \<noteq> []" by (cases segs) (auto simp: abs_path_def)
    then show ?thesis
      using False nn dirname_abs_path_snoc [OF segs c] normalize_abs_path [OF all]
      by (simp add: join_def abs_path_snoc)
  qed
qed

lemma abs_path_snoc_eq: "abs_path (segs @ [n]) = abs_path (segs @ [c]) \<longleftrightarrow> n = c"
  by (simp add: abs_path_snoc)

lemma absolute_file_path_facts:
  assumes "absolute_file_path p"
  obtains stem where
    "stem \<noteq> []" "CHR ''/'' \<notin> set stem" "CHR ''/'' \<notin> set (extname p)"
    "basename p (extname p) = stem"
    "extname p = [] \<or> (hd (extname p) = CHR ''.'' \<and> CHR ''.'' \<notin> set (tl (extname p)))"
    "\<And>n. proper_name n \<Longrightarrow> dirname (join [dirname p, n]) = dirname p"
    "\<And>n. proper_name n \<Longrightarrow> join [dirname p, n] = p \<longleftrightarrow> n = stem @ extname p"
proof -
  from assms obtain segs c where
    segs: "list_all proper_name segs" and c: "proper_name c" and p: "p = abs_path (segs @ [c])"
    by (rule absolute_file_pathD)
  have c': "c \<noteq> []" "CHR ''/'' \<notin> set c" using c by (simp_all add: proper_name_def)
  have lc: "last_component p = c"
    unfolding p abs_path_snoc using c' by (rule last_component_snoc)
  from extname_split [OF lc] c' obtain stem where
    st: "c = stem @ extname p" "stem \<noteq> []"
    and e: "extname p = [] \<or> (hd (extname p) = CHR ''.'' \<and> CHR ''.'' \<notin> set (tl (extname p)))"
    by blast
  have len: "length c \<le> length p" by (simp add: p abs_path_snoc)
  have b: "basename p (extname p) = stem"
    using lc st len by (rule basename_extname)
  have free: "CHR ''/'' \<notin> set stem" "CHR ''/'' \<notin> set (extname p)"
    using c'(2) st(1) by (metis Un_iff set_append)+
  have j: "join [dirname p, n] = abs_path (segs @ [n])" if "proper_name n" for n
    unfolding p using segs c' that by (rule join_dirname)
  have d: "dirname (join [dirname p, n]) = dirname p" if "proper_name n" for n
  proof -
    have "n \<noteq> []" "CHR ''/'' \<notin> set n" using that by (simp_all add: proper_name_def)
    then show ?thesis
      using j [OF that] dirname_abs_path_snoc [OF segs c'] dirname_abs_path_snoc [OF segs, of n]
      by (simp add: p)
  qed
  have q: "join [dirname p, n] = p \<longleftrightarrow> n = stem @ extname p" if "proper_name n" for n
  proof -
    have "join [dirname p, n] = p \<longleftrightarrow> n = c"
      using j [OF that] by (simp add: p abs_path_snoc)
    then show ?thesis using st(1) by simp
  qed
  show thesis using that [OF st(2) free b e d q] .
qed


section \<open>The path functions on the sample inputs\<close>

lemma sample_clip:
  "extname ''/Users/me/clip.mov'' = ''.mov''"
  "basename ''/Users/me/clip.mov'' ''.mov'' = ''clip''"
  "dirname ''/Users/me/clip.mov'' = ''/Users/me''"
  by code_simp+

lemma sample_song:
  "extname ''/Users/me/song.mp3'' = ''.mp3''"
  "basename ''/Users/me/song.mp3'' ''.mp3'' = ''song''"
  "dirname ''/Users/me/song.mp3'' = ''/Users/me''"
  by code_simp+

lemma sample_photo:
  "extname ''/Users/me/photo.png'' = ''.png''"
  "basename ''/Users/me/photo.png'' ''.png'' = ''photo''"
  "dirname ''/Users/me/photo.png'' = ''/Users/me''"
  by code_simp+


section \<open>The sanitising character class, spelled out\<close>

lemma resolution_char_iff:
  "resolution_char c \<longleftrightarrow>
     c \<in> set ''abcdefghijklmnopqrstuvwxyzABCDEFGHIJKLMNOPQRSTUVWXYZ0123456789.-''"
proof (cases c)
  case (Char b0 b1 b2 b3 b4 b5 b6 b7)
  show ?thesis
    unfolding Char resolution_char_def Let_def
    by (cases b0; cases b1; cases b2; cases b3; cases b4; cases b5; cases b6; cases b7)
       simp_all
qed


section \<open>The frame of an argument list\<close>

lemma framed_frame:
  "framed p out (Some ''-i'' # Some p # mid @ [Some ''-y'', Some out])"
  by (simp add: framed_def)

lemma framed_frame_map:
  "framed p out (map Some (''-i'' # p # mid @ [''-y'', out]))"
  using framed_frame [of p out "map Some mid"] by simp



section \<open>Compress without a media kind\<close>

text \<open>
  With \<^verbatim>\<open>fileType\<close> still \<^verbatim>\<open>null\<close> the Compress handler never builds an argument
  list: the \<^verbatim>\<open>default\<close> case throws when a quality was typed, and the preset lookup
  raises before the \<^verbatim>\<open>switch\<close> is reached when none was.
\<close>

lemma compress_undetermined_kind_fails:
  "media_state.fileType st = None \<Longrightarrow>
     compress_handleSubmit st values
       = (case CompressFormValues.inputFile values of
            [] \<Rightarrow> Inl TypeError
          | _ # _ \<Rightarrow>
              if truthy (CompressFormValues.quality values) then Inl UnsupportedFileType
              else Inl TypeError)"
  by (simp add: compress_handleSubmit_def qualityValue_def first_file_def Let_def
      split: list.splits)



section \<open>Where the output file lands\<close>

text \<open>
  For a well-formed input path, joining its directory with a name built on the input's base
  name gives a path in that directory, and the path is the input's own only if the name
  is.
\<close>

lemma proper_name_long: "CHR ''/'' \<notin> set n \<Longrightarrow> 3 \<le> length n \<Longrightarrow> proper_name n"
  by (auto simp: proper_name_def)

lemma extname_shape:
  "extname p = [] \<or> (\<exists>e. extname p = CHR ''.'' # e \<and> CHR ''.'' \<notin> set e)"
proof -
  from extname_split [OF refl, of p]
  have "extname p = [] \<or> (hd (extname p) = CHR ''.'' \<and> CHR ''.'' \<notin> set (tl (extname p)))"
    by blast
  then show ?thesis by (cases "extname p") auto
qed

lemma placement:
  assumes p: "absolute_file_path p" and z: "CHR ''/'' \<notin> set z" "2 \<le> length z"
  shows "dirname (join [dirname p, basename p (extname p) @ z]) = dirname p"
    and "join [dirname p, basename p (extname p) @ z] = p \<longleftrightarrow> z = extname p"
proof -
  obtain stem where
    st: "stem \<noteq> []" "CHR ''/'' \<notin> set stem" "basename p (extname p) = stem"
    and d: "\<And>n. proper_name n \<Longrightarrow> dirname (join [dirname p, n]) = dirname p"
    and q: "\<And>n. proper_name n \<Longrightarrow> join [dirname p, n] = p \<longleftrightarrow> n = stem @ extname p"
    by (rule absolute_file_path_facts [OF p]) blast
  have "3 \<le> length (stem @ z)" using st(1) z(2) by (cases stem) simp_all
  moreover have "CHR ''/'' \<notin> set (stem @ z)" using st(2) z(1) by simp
  ultimately have pn: "proper_name (stem @ z)" by (rule proper_name_long [rotated])
  show "dirname (join [dirname p, basename p (extname p) @ z]) = dirname p"
    unfolding st(3) using pn by (rule d)
  show "join [dirname p, basename p (extname p) @ z] = p \<longleftrightarrow> z = extname p"
    unfolding st(3) using q [OF pn] by simp
qed

lemma extname_slash_free: "absolute_file_path p \<Longrightarrow> CHR ''/'' \<notin> set (extname p)"
  by (erule absolute_file_path_facts)

lemma placed:
  assumes p: "absolute_file_path p"
    and c: "outputPath c = join [dirname p, basename p (extname p) @ pre @ extname p]"
    and pre: "CHR ''/'' \<notin> set pre" "2 \<le> length pre"
  shows "dirname (outputPath c) = dirname p \<and> outputPath c \<noteq> p"
proof -
  have z: "CHR ''/'' \<notin> set (pre @ extname p)" "2 \<le> length (pre @ extname p)"
    using pre extname_slash_free [OF p] by simp_all
  have "pre \<noteq> []" using pre(2) by auto
  then have "pre @ extname p \<noteq> extname p" by simp
  then show ?thesis
    unfolding c using placement [OF p z] by simp
qed

lemma convert_name_unchanged:
  assumes "s = [] \<or> (\<exists>t. s = CHR ''.'' # t)"
  shows "s @ CHR ''.'' # f = extname p \<longleftrightarrow> s = [] \<and> extname p = CHR ''.'' # f"
proof (cases "s = []")
  case True
  then show ?thesis by auto
next
  case False
  then obtain t where s: "s = CHR ''.'' # t" using assms by blast
  have "s @ CHR ''.'' # f \<noteq> extname p"
  proof
    assume eq: "s @ CHR ''.'' # f = extname p"
    then obtain e where e: "extname p = CHR ''.'' # e" "CHR ''.'' \<notin> set e"
      using extname_shape [of p] s by auto
    then have "e = t @ CHR ''.'' # f" using eq s by simp
    then show False using e(2) by simp
  qed
  then show ?thesis using False by simp
qed

lemma sanitize_nonempty:
  "sanitize (w @ ''p'') \<noteq> []" "sanitize (w @ ''w'') \<noteq> []" "sanitize (w @ ''x'' @ h) \<noteq> []"
  by (simp_all add: sanitize_def resolution_char_def filter_empty_conv)

lemma sanitize_slash_free: "CHR ''/'' \<notin> set (sanitize s)"
  by (simp add: sanitize_def resolution_char_def)

lemma tmpl_or_default_slash_free:
  "slash_free (tmpl v) \<Longrightarrow> slash_free d \<Longrightarrow> slash_free (or_default v d)"
  by (auto simp: or_default_def tmpl_def split: option.splits)

lemma convert_suffix_shape:
  "(snd (convert_video cv) = [] \<or> (\<exists>t. snd (convert_video cv) = CHR ''.'' # t))
   \<and> (snd (convert_audio cv) = [] \<or> (\<exists>t. snd (convert_audio cv) = CHR ''.'' # t))
   \<and> (snd (convert_image cv) = [] \<or> (\<exists>t. snd (convert_image cv) = CHR ''.'' # t))"
  by (simp add: convert_video_def convert_audio_def convert_image_def Let_def
      split: prod.splits)

lemma convert_suffix_empty:
  "(snd (convert_video cv) = [] \<longleftrightarrow>
      \<not> (truthy_opt (ConvertFormValues.codec cv) \<and> ConvertFormValues.codec cv \<noteq> Some ''copy''))"
  "(snd (convert_audio cv) = [] \<longleftrightarrow>
      \<not> ConvertFormValues.maintainQuality cv \<and> \<not> truthy_opt (ConvertFormValues.quality cv))"
  "(snd (convert_image cv) = [] \<longleftrightarrow>
      \<not> ConvertFormValues.maintainQuality cv \<and> \<not> truthy_opt (ConvertFormValues.quality cv))"
  by (auto simp: convert_video_def convert_audio_def convert_image_def Let_def truthy_opt_def
      truthy_def split: prod.splits option.splits)

lemma convert_suffix_slash_free:
  assumes "slash_free (tmpl (ConvertFormValues.codec cv))"
    and "slash_free (tmpl (ConvertFormValues.quality cv))"
  shows "CHR ''/'' \<notin> set (snd (convert_video cv))"
    and "CHR ''/'' \<notin> set (snd (convert_audio cv))"
    and "CHR ''/'' \<notin> set (snd (convert_image cv))"
proof -
  have q: "CHR ''/'' \<notin> set (or_default (ConvertFormValues.quality cv) ''30'')"
    "CHR ''/'' \<notin> set (or_default (ConvertFormValues.quality cv) ''23'')"
    using tmpl_or_default_slash_free [OF assms(2), of "''30''"]
      tmpl_or_default_slash_free [OF assms(2), of "''23''"]
    by (simp_all add: slash_free_def)
  have c: "CHR ''/'' \<notin> set (tmpl (ConvertFormValues.codec cv))"
    "CHR ''/'' \<notin> set (tmpl (ConvertFormValues.quality cv))"
    using assms by (simp_all add: slash_free_def)
  show "CHR ''/'' \<notin> set (snd (convert_video cv))"
    using q c by (auto simp: convert_video_def Let_def tmpl_def split: prod.splits)
  show "CHR ''/'' \<notin> set (snd (convert_audio cv))"
    using c by (simp add: convert_audio_def)
  show "CHR ''/'' \<notin> set (snd (convert_image cv))"
    using c by (simp add: convert_image_def)
qed

lemma preset_value_slash_free:
  "CHR ''/'' \<notin> set (tmpl (map_of (QUALITY_PRESETS kind) name))"
  by (cases kind) (simp_all add: QUALITY_PRESETS_def tmpl_def)


lemma sample_paths_absolute:
  "absolute_file_path ''/Users/me/clip.mov''"
  "absolute_file_path ''/Users/me/song.mp3''"
  "absolute_file_path ''/Users/me/photo.png''"
  by code_simp+

lemma dropdown_numbers_slash_free:
  "slash_free (numberToString dropdown_numbers (parseFloat dropdown_numbers s))"
  by (simp add: dropdown_numbers_def slash_free_def)


text \<open>
  The handlers splice option texts into the name unchecked, apart from the resolution
  token of the unified Resize command. A slash in such a text adds a directory level:
\<close>

lemma option_with_slash_leaves_directory:
  "\<exists>c. resize_image_handleSubmit \<lparr> picker_state.defaultFile = [] \<rparr>
          \<lparr> ResizeImageFormValues.inputFile = [''/Users/me/photo.png''], width = ''800'',
            height = ''1/2'', maintainAspectRatio = False, quality = [],
            filter = ''lanczos'' \<rparr> = Inr c
      \<and> outputPath c = ''/Users/me/photo.800x1/2.png''
      \<and> dirname (outputPath c) = ''/Users/me/photo.800x1''"
proof -
  have "join [''/Users/me'', ''photo.800x1/2.png''] = ''/Users/me/photo.800x1/2.png''"
    "dirname ''/Users/me/photo.800x1/2.png'' = ''/Users/me/photo.800x1''"
    by code_simp+
  then show ?thesis
    by (simp add: resize_image_handleSubmit_def first_file_def Let_def sample_photo truthy_def)
qed



section \<open>Claims\<close>


text \<open>
  C1. Every handler that is given a selected file (and, for Compress, a determined media
  kind) returns an argument list that starts with \<^verbatim>\<open>-i\<close> and the input path and
  whose last two tokens are \<^verbatim>\<open>-y\<close> and the output path it computed.
\<close>

theorem argv_framed:
  "(ConvertFormValues.inputFile cv = p # rest \<longrightarrow>
      (\<exists>c. convert_handleSubmit cs cv = Inr c \<and> framed p (outputPath c) (map Some (argv c))))
   \<and> (ResolutionVideoFormValues.inputFile rv = p # rest \<longrightarrow>
      (\<exists>c. resolution_video_handleSubmit ps rv = Inr c
         \<and> framed p (outputPath c) (map Some (argv c))))
   \<and> (ResizeImageFormValues.inputFile iv = p # rest \<longrightarrow>
      (\<exists>c. resize_image_handleSubmit ps iv = Inr c
         \<and> framed p (outputPath c) (map Some (argv c))))
   \<and> (SpeedFormValues.inputFile sv = p # rest \<longrightarrow>
      (\<exists>c. speed_handleSubmit ops ms sv = Inr c
         \<and> framed p (outputPath c) (map Some (argv c))))
   \<and> (ResizeFormValues.inputFile uv = p # rest \<longrightarrow>
      (\<exists>c. resize_handleSubmit rs uv = Inr c
         \<and> framed p (outputPath c) (map Some (argv c))))
   \<and> (CompressFormValues.inputFile zv = p # rest \<and> media_state.fileType ms = Some kind \<longrightarrow>
      (\<exists>c. compress_handleSubmit ms zv = Inr c \<and> framed p (outputPath c) (argv c)))"
proof (intro conjI impI)
  assume "ConvertFormValues.inputFile cv = p # rest"
  then show "\<exists>c. convert_handleSubmit cs cv = Inr c
                \<and> framed p (outputPath c) (map Some (argv c))"
    using framed_frame_map
    by (simp add: convert_handleSubmit_def first_file_def Let_def split: prod.splits)
next
  assume "ResolutionVideoFormValues.inputFile rv = p # rest"
  then show "\<exists>c. resolution_video_handleSubmit ps rv = Inr c
                \<and> framed p (outputPath c) (map Some (argv c))"
    by (simp add: resolution_video_handleSubmit_def first_file_def Let_def framed_def)
next
  assume "ResizeImageFormValues.inputFile iv = p # rest"
  then show "\<exists>c. resize_image_handleSubmit ps iv = Inr c
                \<and> framed p (outputPath c) (map Some (argv c))"
    by (simp add: resize_image_handleSubmit_def first_file_def Let_def framed_def)
next
  assume "SpeedFormValues.inputFile sv = p # rest"
  then show "\<exists>c. speed_handleSubmit ops ms sv = Inr c
                \<and> framed p (outputPath c) (map Some (argv c))"
    by (simp add: speed_handleSubmit_def first_file_def Let_def framed_def)
next
  assume "ResizeFormValues.inputFile uv = p # rest"
  then show "\<exists>c. resize_handleSubmit rs uv = Inr c
                \<and> framed p (outputPath c) (map Some (argv c))"
    by (cases "ResizeFormValues.fileType uv")
       (simp_all add: resize_handleSubmit_def first_file_def Let_def framed_def)
next
  assume "CompressFormValues.inputFile zv = p # rest \<and> media_state.fileType ms = Some kind"
  then show "\<exists>c. compress_handleSubmit ms zv = Inr c \<and> framed p (outputPath c) (argv c)"
    by (cases kind)
       (simp_all add: compress_handleSubmit_def qualityValue_def first_file_def Let_def
          framed_def)
qed

text \<open>One request for each command.\<close>

theorem argv_framed_witness:
  "(\<exists>c. convert_handleSubmit
           \<lparr> convert_state.defaultFile = [], fileType = Some Audio, maintainQualityBox = False \<rparr>
           \<lparr> ConvertFormValues.inputFile = [''/Users/me/song.mp3''], format = Some ''wav'',
             codec = None, quality = Some ''192'', maintainQuality = False \<rparr> = Inr c
        \<and> framed ''/Users/me/song.mp3'' (outputPath c) (map Some (argv c)))
   \<and> (\<exists>c. resolution_video_handleSubmit \<lparr> picker_state.defaultFile = [] \<rparr>
            \<lparr> ResolutionVideoFormValues.inputFile = [''/Users/me/song.mp3''], width = ''1280'',
              height = ''720'', maintainAspectRatio = False, preset = ''fast'',
              filter = ''bicubic'', keepAudioBitrate = True \<rparr> = Inr c
        \<and> framed ''/Users/me/song.mp3'' (outputPath c) (map Some (argv c)))
   \<and> (\<exists>c. resize_image_handleSubmit \<lparr> picker_state.defaultFile = [] \<rparr>
            \<lparr> ResizeImageFormValues.inputFile = [''/Users/me/song.mp3''], width = ''800'',
              height = ''600'', maintainAspectRatio = False, quality = ''5'',
              filter = ''lanczos'' \<rparr> = Inr c
        \<and> framed ''/Users/me/song.mp3'' (outputPath c) (map Some (argv c)))
   \<and> (\<exists>c. speed_handleSubmit dropdown_numbers
            \<lparr> media_state.defaultFile = [], fileType = Some Audio \<rparr>
            \<lparr> SpeedFormValues.inputFile = [''/Users/me/song.mp3''], speed = ''1.5'',
              maintainPitch = False, customAudioSpeed = None \<rparr> = Inr c
        \<and> framed ''/Users/me/song.mp3'' (outputPath c) (map Some (argv c)))
   \<and> (\<exists>c. resize_handleSubmit \<lparr> resize_state.defaultFile = [], fileType = ImageFile \<rparr>
            \<lparr> ResizeFormValues.inputFile = [''/Users/me/song.mp3''], width = ''800'',
              height = None, maintainAspectRatio = True, filter = ''lanczos'',
              fileType = ImageFile, quality = None, preset = None,
              keepAudioBitrate = False \<rparr> = Inr c
        \<and> framed ''/Users/me/song.mp3'' (outputPath c) (map Some (argv c)))
   \<and> (\<exists>c. compress_handleSubmit \<lparr> media_state.defaultFile = [], fileType = Some Audio \<rparr>
            \<lparr> CompressFormValues.inputFile = [''/Users/me/song.mp3''], quality = [],
              preset = ''low'' \<rparr> = Inr c
        \<and> framed ''/Users/me/song.mp3'' (outputPath c) (argv c))"
  using argv_framed
    [where p = "''/Users/me/song.mp3''" and rest = "[]"
       and cs = "\<lparr> convert_state.defaultFile = [], fileType = Some Audio,
                   maintainQualityBox = False \<rparr>"
       and cv = "\<lparr> ConvertFormValues.inputFile = [''/Users/me/song.mp3''], format = Some ''wav'',
                   codec = None, quality = Some ''192'', maintainQuality = False \<rparr>"
       and ps = "\<lparr> picker_state.defaultFile = [] \<rparr>"
       and rv = "\<lparr> ResolutionVideoFormValues.inputFile = [''/Users/me/song.mp3''],
                   width = ''1280'', height = ''720'', maintainAspectRatio = False,
                   preset = ''fast'', filter = ''bicubic'', keepAudioBitrate = True \<rparr>"
       and iv = "\<lparr> ResizeImageFormValues.inputFile = [''/Users/me/song.mp3''], width = ''800'',
                   height = ''600'', maintainAspectRatio = False, quality = ''5'',
                   filter = ''lanczos'' \<rparr>"
       and ops = dropdown_numbers
       and ms = "\<lparr> media_state.defaultFile = [], fileType = Some Audio \<rparr>"
       and sv = "\<lparr> SpeedFormValues.inputFile = [''/Users/me/song.mp3''], speed = ''1.5'',
                   maintainPitch = False, customAudioSpeed = None \<rparr>"
       and rs = "\<lparr> resize_state.defaultFile = [], fileType = ImageFile \<rparr>"
       and uv = "\<lparr> ResizeFormValues.inputFile = [''/Users/me/song.mp3''], width = ''800'',
                   height = None, maintainAspectRatio = True, filter = ''lanczos'',
                   fileType = ImageFile, quality = None, preset = None,
                   keepAudioBitrate = False \<rparr>"
       and zv = "\<lparr> CompressFormValues.inputFile = [''/Users/me/song.mp3''], quality = [],
                   preset = ''low'' \<rparr>"
       and kind = Audio]
  by simp



text \<open>
  C2 asks that a request whose media kind is none of video, audio and image fails before
  any argument list exists. The Convert handler has no such case: with
  \<^verbatim>\<open>fileType\<close> \<^verbatim>\<open>null\<close> (a file with an unknown extension was picked, so no format
  dropdown was rendered) it falls through its three branches and returns the two-flag
  list below, with the undefined format printed into the output name.
\<close>

theorem convert_undetermined_kind_compiles:
  "convert_handleSubmit
     \<lparr> convert_state.defaultFile = [], fileType = None, maintainQualityBox = False \<rparr>
     \<lparr> ConvertFormValues.inputFile = [''/Users/me/notes.txt''], format = None,
       codec = None, quality = None, maintainQuality = False \<rparr>
   = Inr \<lparr> argv = [''-i'', ''/Users/me/notes.txt'', ''-y'', ''/Users/me/notes.undefined''],
            outputPath = ''/Users/me/notes.undefined'' \<rparr>"
proof -
  have "extname ''/Users/me/notes.txt'' = ''.txt''"
    "basename ''/Users/me/notes.txt'' ''.txt'' = ''notes''"
    "dirname ''/Users/me/notes.txt'' = ''/Users/me''"
    "join [''/Users/me'', ''notes.undefined''] = ''/Users/me/notes.undefined''"
    by code_simp+
  then show ?thesis
    by (simp add: convert_handleSubmit_def first_file_def Let_def tmpl_def)
qed



text \<open>
  C3, as stated, fails for the Convert command: with the codec \<^verbatim>\<open>copy\<close> no suffix is
  appended, whatever the quality settings are. Here the maximum-quality box is ticked and
  the codec differs from the form's default, yet the output path is the input path.
\<close>

theorem convert_copy_keeps_name_counterexample:
  "convert_handleSubmit
     \<lparr> convert_state.defaultFile = [], fileType = Some Video, maintainQualityBox = True \<rparr>
     \<lparr> ConvertFormValues.inputFile = [''/Users/me/clip.mov''], format = Some ''mov'',
       codec = Some ''copy'', quality = None, maintainQuality = True \<rparr>
   = Inr \<lparr> argv = [''-i'', ''/Users/me/clip.mov'', ''-c:v'', ''copy'', ''-c:a'', ''copy'',
                    ''-y'', ''/Users/me/clip.mov''],
            outputPath = ''/Users/me/clip.mov'' \<rparr>"
proof -
  have "join [''/Users/me'', ''clip.mov''] = ''/Users/me/clip.mov''"
    by code_simp
  then show ?thesis
    by (simp add: convert_handleSubmit_def convert_video_def first_file_def Let_def tmpl_def
        truthy_opt_def truthy_def sample_clip)
qed

text \<open>
  C3, amended. Let the input path be absolute and well formed and let the option texts
  contain no slash. Then every handler's output path lies in the directory of the input.
  For the rescaling commands, Speed and Compress it always differs from the input path.
  For Convert (with a non-empty format) it equals the input path exactly when the target
  format is the input's extension and no suffix is appended: the media kind is
  undetermined, or it is video and the codec is \<^verbatim>\<open>copy\<close> or absent, or it is audio or
  image with no quality given and maximum quality off. That case is not rejected: the
  handler still returns its argument list.
\<close>

theorem output_beside_input:
  assumes p: "absolute_file_path p"
  shows
    "(ResolutionVideoFormValues.inputFile rv = p # rest
        \<and> slash_free (ResolutionVideoFormValues.width rv)
        \<and> slash_free (ResolutionVideoFormValues.height rv)
        \<and> slash_free (ResolutionVideoFormValues.preset rv) \<longrightarrow>
        (\<exists>c. resolution_video_handleSubmit ps rv = Inr c
           \<and> dirname (outputPath c) = dirname p \<and> outputPath c \<noteq> p))
     \<and> (ResizeImageFormValues.inputFile iv = p # rest
        \<and> slash_free (ResizeImageFormValues.width iv)
        \<and> slash_free (ResizeImageFormValues.height iv)
        \<and> slash_free (ResizeImageFormValues.quality iv) \<longrightarrow>
        (\<exists>c. resize_image_handleSubmit ps iv = Inr c
           \<and> dirname (outputPath c) = dirname p \<and> outputPath c \<noteq> p))
     \<and> (SpeedFormValues.inputFile sv = p # rest
        \<and> (\<forall>s. slash_free (numberToString ops (parseFloat ops s))) \<longrightarrow>
        (\<exists>c. speed_handleSubmit ops ms sv = Inr c
           \<and> dirname (outputPath c) = dirname p \<and> outputPath c \<noteq> p))
     \<and> (ResizeFormValues.inputFile uv = p # rest
        \<and> slash_free (tmpl (ResizeFormValues.quality uv))
        \<and> slash_free (tmpl (ResizeFormValues.preset uv)) \<longrightarrow>
        (\<exists>c. resize_handleSubmit rs uv = Inr c
           \<and> dirname (outputPath c) = dirname p \<and> outputPath c \<noteq> p))
     \<and> (CompressFormValues.inputFile zv = p # rest
        \<and> media_state.fileType ms = Some kind
        \<and> slash_free (CompressFormValues.quality zv) \<longrightarrow>
        (\<exists>c. compress_handleSubmit ms zv = Inr c
           \<and> dirname (outputPath c) = dirname p \<and> outputPath c \<noteq> p))
     \<and> (ConvertFormValues.inputFile cv = p # rest
        \<and> slash_free (tmpl (ConvertFormValues.codec cv))
        \<and> slash_free (tmpl (ConvertFormValues.quality cv))
        \<and> slash_free (tmpl (ConvertFormValues.format cv))
        \<and> tmpl (ConvertFormValues.format cv) \<noteq> [] \<longrightarrow>
        (\<exists>c. convert_handleSubmit cs cv = Inr c
           \<and> dirname (outputPath c) = dirname p
           \<and> (outputPath c = p \<longleftrightarrow>
                extname p = ''.'' @ tmpl (ConvertFormValues.format cv)
                \<and> (case convert_state.fileType cs of
                       None \<Rightarrow> True
                     | Some Video \<Rightarrow>
                         \<not> (truthy_opt (ConvertFormValues.codec cv)
                            \<and> ConvertFormValues.codec cv \<noteq> Some ''copy'')
                     | Some Audio \<Rightarrow>
                         \<not> ConvertFormValues.maintainQuality cv
                         \<and> \<not> truthy_opt (ConvertFormValues.quality cv)
                     | Some Image \<Rightarrow>
                         \<not> ConvertFormValues.maintainQuality cv
                         \<and> \<not> truthy_opt (ConvertFormValues.quality cv)))))"
proof (intro conjI impI)
  assume a: "ResolutionVideoFormValues.inputFile rv = p # rest
        \<and> slash_free (ResolutionVideoFormValues.width rv)
        \<and> slash_free (ResolutionVideoFormValues.height rv)
        \<and> slash_free (ResolutionVideoFormValues.preset rv)"
  define pre where "pre = ''.''
      @ (if ResolutionVideoFormValues.maintainAspectRatio rv
         then ResolutionVideoFormValues.width rv @ ''p''
         else ResolutionVideoFormValues.width rv @ ''x'' @ ResolutionVideoFormValues.height rv)
      @ (if ResolutionVideoFormValues.preset rv \<noteq> ''medium''
         then ''.'' @ ResolutionVideoFormValues.preset rv else [])"
  from a obtain c where c: "resolution_video_handleSubmit ps rv = Inr c"
    "outputPath c = join [dirname p, basename p (extname p) @ pre @ extname p]"
    by (simp add: resolution_video_handleSubmit_def first_file_def Let_def pre_def)
  have "CHR ''/'' \<notin> set pre" "2 \<le> length pre"
    using a by (simp_all add: pre_def slash_free_def)
  from placed [OF p c(2) this] c(1)
  show "\<exists>c. resolution_video_handleSubmit ps rv = Inr c
           \<and> dirname (outputPath c) = dirname p \<and> outputPath c \<noteq> p"
    by blast
next
  assume a: "ResizeImageFormValues.inputFile iv = p # rest
        \<and> slash_free (ResizeImageFormValues.width iv)
        \<and> slash_free (ResizeImageFormValues.height iv)
        \<and> slash_free (ResizeImageFormValues.quality iv)"
  define pre where "pre = ''.''
      @ (if ResizeImageFormValues.maintainAspectRatio iv
         then ResizeImageFormValues.width iv @ ''w''
         else ResizeImageFormValues.width iv @ ''x'' @ ResizeImageFormValues.height iv)
      @ (if truthy (ResizeImageFormValues.quality iv)
         then ''.q'' @ ResizeImageFormValues.quality iv else [])"
  from a obtain c where c: "resize_image_handleSubmit ps iv = Inr c"
    "outputPath c = join [dirname p, basename p (extname p) @ pre @ extname p]"
    by (simp add: resize_image_handleSubmit_def first_file_def Let_def pre_def)
  have "CHR ''/'' \<notin> set pre" "2 \<le> length pre"
    using a by (simp_all add: pre_def slash_free_def)
  from placed [OF p c(2) this] c(1)
  show "\<exists>c. resize_image_handleSubmit ps iv = Inr c
           \<and> dirname (outputPath c) = dirname p \<and> outputPath c \<noteq> p"
    by blast
next
  assume a: "SpeedFormValues.inputFile sv = p # rest
        \<and> (\<forall>s. slash_free (numberToString ops (parseFloat ops s)))"
  then have free: "CHR ''/'' \<notin> set (numberToString ops (parseFloat ops s))" for s
    by (simp add: slash_free_def)
  define speed where "speed = parseFloat ops (SpeedFormValues.speed sv)"
  define audioSpeed where "audioSpeed =
      (if truthy_opt (customAudioSpeed sv) then parseFloat ops (tmpl (customAudioSpeed sv))
       else speed)"
  define pre where "pre = ''.''
      @ (if media_state.fileType ms = Some Video then
           numberToString ops speed @ ''x''
             @ (if strictNotEqual ops audioSpeed speed
                then ''.a'' @ numberToString ops audioSpeed @ ''x'' else [])
             @ (if maintainPitch sv then ''.pitch'' else [])
         else numberToString ops speed @ ''x'')"
  from a have "\<exists>c. speed_handleSubmit ops ms sv = Inr c
      \<and> outputPath c = join [dirname p, basename p (extname p) @ pre @ extname p]"
    by (cases "media_state.fileType ms = Some Video")
       (simp_all add: speed_handleSubmit_def first_file_def Let_def pre_def speed_def
          audioSpeed_def)
  then obtain c where c: "speed_handleSubmit ops ms sv = Inr c"
    "outputPath c = join [dirname p, basename p (extname p) @ pre @ extname p]"
    by blast
  have "CHR ''/'' \<notin> set (numberToString ops speed)"
    "CHR ''/'' \<notin> set (numberToString ops audioSpeed)"
    using free by (simp_all add: speed_def audioSpeed_def)
  then have "CHR ''/'' \<notin> set pre" "2 \<le> length pre"
    by (simp_all add: pre_def)
  from placed [OF p c(2) this] c(1)
  show "\<exists>c. speed_handleSubmit ops ms sv = Inr c
           \<and> dirname (outputPath c) = dirname p \<and> outputPath c \<noteq> p"
    by blast
next
  assume a: "ResizeFormValues.inputFile uv = p # rest
        \<and> slash_free (tmpl (ResizeFormValues.quality uv))
        \<and> slash_free (tmpl (ResizeFormValues.preset uv))"
  define tok where "tok = sanitize
      (if ResizeFormValues.fileType uv = VideoFile then ResizeFormValues.width uv @ ''p''
       else if truthy_opt (ResizeFormValues.height uv)
               \<and> \<not> ResizeFormValues.maintainAspectRatio uv
       then ResizeFormValues.width uv @ ''x'' @ tmpl (ResizeFormValues.height uv)
       else ResizeFormValues.width uv @ ''w'')"
  define pre where "pre = ''.'' @ tok
      @ (if ResizeFormValues.fileType uv = ImageFile
            \<and> truthy_opt (ResizeFormValues.quality uv)
         then ''.q'' @ tmpl (ResizeFormValues.quality uv) else [])
      @ (if ResizeFormValues.fileType uv = VideoFile
            \<and> ResizeFormValues.preset uv \<noteq> Some ''medium''
         then ''.'' @ tmpl (ResizeFormValues.preset uv) else [])"
  from a have "\<exists>c. resize_handleSubmit rs uv = Inr c
      \<and> outputPath c = join [dirname p, basename p (extname p) @ pre @ extname p]"
    by (cases "ResizeFormValues.fileType uv")
       (simp_all add: resize_handleSubmit_def first_file_def Let_def pre_def tok_def)
  then obtain c where c: "resize_handleSubmit rs uv = Inr c"
    "outputPath c = join [dirname p, basename p (extname p) @ pre @ extname p]"
    by blast
  have tok: "tok \<noteq> []" "CHR ''/'' \<notin> set tok"
    using sanitize_nonempty sanitize_slash_free by (simp_all add: tok_def)
  then have "CHR ''/'' \<notin> set pre" "2 \<le> length pre"
    using a by (cases tok; simp add: pre_def slash_free_def)+
  from placed [OF p c(2) this] c(1)
  show "\<exists>c. resize_handleSubmit rs uv = Inr c
           \<and> dirname (outputPath c) = dirname p \<and> outputPath c \<noteq> p"
    by blast
next
  assume a: "CompressFormValues.inputFile zv = p # rest
        \<and> media_state.fileType ms = Some kind
        \<and> slash_free (CompressFormValues.quality zv)"
  define q where "q =
      (if truthy (CompressFormValues.quality zv) then Some (CompressFormValues.quality zv)
       else map_of (QUALITY_PRESETS kind) (CompressFormValues.preset zv))"
  define pre where "pre =
      (case kind of Video \<Rightarrow> ''.crf'' @ tmpl q
                  | Audio \<Rightarrow> ''.'' @ tmpl q @ ''kbps''
                  | Image \<Rightarrow> ''.q'' @ tmpl q)"
  from a have "\<exists>c. compress_handleSubmit ms zv = Inr c
      \<and> outputPath c = join [dirname p, basename p (extname p) @ pre @ extname p]"
    by (cases kind; cases "truthy (CompressFormValues.quality zv)")
       (simp_all add: compress_handleSubmit_def qualityValue_def first_file_def Let_def
          pre_def q_def)
  then obtain c where c: "compress_handleSubmit ms zv = Inr c"
    "outputPath c = join [dirname p, basename p (extname p) @ pre @ extname p]"
    by blast
  have "CHR ''/'' \<notin> set (tmpl q)"
    using a preset_value_slash_free [of kind "CompressFormValues.preset zv"]
    by (simp add: q_def slash_free_def tmpl_def)
  then have "CHR ''/'' \<notin> set pre" "2 \<le> length pre"
    by (cases kind; simp add: pre_def)+
  from placed [OF p c(2) this] c(1)
  show "\<exists>c. compress_handleSubmit ms zv = Inr c
           \<and> dirname (outputPath c) = dirname p \<and> outputPath c \<noteq> p"
    by blast
next
  assume a: "ConvertFormValues.inputFile cv = p # rest
        \<and> slash_free (tmpl (ConvertFormValues.codec cv))
        \<and> slash_free (tmpl (ConvertFormValues.quality cv))
        \<and> slash_free (tmpl (ConvertFormValues.format cv))
        \<and> tmpl (ConvertFormValues.format cv) \<noteq> []"
  define sfx where "sfx =
      (case convert_state.fileType cs of
         None \<Rightarrow> []
       | Some Video \<Rightarrow> snd (convert_video cv)
       | Some Audio \<Rightarrow> snd (convert_audio cv)
       | Some Image \<Rightarrow> snd (convert_image cv))"
  define f where "f = tmpl (ConvertFormValues.format cv)"
  from a have "\<exists>c. convert_handleSubmit cs cv = Inr c
      \<and> outputPath c = join [dirname p, basename p (extname p) @ (sfx @ CHR ''.'' # f)]"
    by (cases "convert_state.fileType cs"; cases "the (convert_state.fileType cs)")
       (simp_all add: convert_handleSubmit_def first_file_def Let_def sfx_def f_def
          split: prod.splits)
  then obtain c where c: "convert_handleSubmit cs cv = Inr c"
    "outputPath c = join [dirname p, basename p (extname p) @ (sfx @ CHR ''.'' # f)]"
    by blast
  have shape: "sfx = [] \<or> (\<exists>t. sfx = CHR ''.'' # t)"
    using convert_suffix_shape [of cv]
    by (simp add: sfx_def split: option.splits media.splits)
  have free: "CHR ''/'' \<notin> set sfx"
    using convert_suffix_slash_free [of cv] a
    by (simp add: sfx_def split: option.splits media.splits)
  have empty: "sfx = [] \<longleftrightarrow>
      (case convert_state.fileType cs of
         None \<Rightarrow> True
       | Some Video \<Rightarrow>
           \<not> (truthy_opt (ConvertFormValues.codec cv)
              \<and> ConvertFormValues.codec cv \<noteq> Some ''copy'')
       | Some Audio \<Rightarrow>
           \<not> ConvertFormValues.maintainQuality cv
           \<and> \<not> truthy_opt (ConvertFormValues.quality cv)
       | Some Image \<Rightarrow>
           \<not> ConvertFormValues.maintainQuality cv
           \<and> \<not> truthy_opt (ConvertFormValues.quality cv))"
    using convert_suffix_empty [of cv]
    by (simp add: sfx_def split: option.splits media.splits)
  have z: "CHR ''/'' \<notin> set (sfx @ CHR ''.'' # f)" "2 \<le> length (sfx @ CHR ''.'' # f)"
    using a free by (cases f; simp add: f_def slash_free_def)+
  have "dirname (outputPath c) = dirname p"
    unfolding c(2) using p z by (rule placement(1))
  moreover have "outputPath c = p \<longleftrightarrow> sfx = [] \<and> extname p = CHR ''.'' # f"
    unfolding c(2) placement(2) [OF p z] using shape by (rule convert_name_unchanged)
  ultimately
  show "\<exists>c. convert_handleSubmit cs cv = Inr c
           \<and> dirname (outputPath c) = dirname p
           \<and> (outputPath c = p \<longleftrightarrow>
                extname p = ''.'' @ tmpl (ConvertFormValues.format cv)
                \<and> (case convert_state.fileType cs of
                       None \<Rightarrow> True
                     | Some Video \<Rightarrow>
                         \<not> (truthy_opt (ConvertFormValues.codec cv)
                            \<and> ConvertFormValues.codec cv \<noteq> Some ''copy'')
                     | Some Audio \<Rightarrow>
                         \<not> ConvertFormValues.maintainQuality cv
                         \<and> \<not> truthy_opt (ConvertFormValues.quality cv)
                     | Some Image \<Rightarrow>
                         \<not> ConvertFormValues.maintainQuality cv
                         \<and> \<not> truthy_opt (ConvertFormValues.quality cv)))"
    using c(1) empty unfolding f_def by auto
qed

text \<open>
  One request for each command; the last is the degenerate Convert request, whose output
  path is the input path.
\<close>

theorem output_beside_input_witness:
  "(\<exists>c. resolution_video_handleSubmit \<lparr> picker_state.defaultFile = [] \<rparr>
           \<lparr> ResolutionVideoFormValues.inputFile = [''/Users/me/clip.mov''], width = ''1280'',
             height = ''720'', maintainAspectRatio = False, preset = ''fast'',
             filter = ''bicubic'', keepAudioBitrate = True \<rparr> = Inr c
        \<and> dirname (outputPath c) = ''/Users/me'' \<and> outputPath c \<noteq> ''/Users/me/clip.mov'')
   \<and> (\<exists>c. speed_handleSubmit dropdown_numbers
            \<lparr> media_state.defaultFile = [], fileType = Some Video \<rparr>
            \<lparr> SpeedFormValues.inputFile = [''/Users/me/clip.mov''], speed = ''2.0'',
              maintainPitch = False, customAudioSpeed = None \<rparr> = Inr c
        \<and> dirname (outputPath c) = ''/Users/me'' \<and> outputPath c \<noteq> ''/Users/me/clip.mov'')
   \<and> (\<exists>c. resize_handleSubmit \<lparr> resize_state.defaultFile = [], fileType = VideoFile \<rparr>
            \<lparr> ResizeFormValues.inputFile = [''/Users/me/clip.mov''], width = ''1920'',
              height = None, maintainAspectRatio = True, filter = ''bicubic'',
              fileType = VideoFile, quality = None, preset = Some ''medium'',
              keepAudioBitrate = True \<rparr> = Inr c
        \<and> dirname (outputPath c) = ''/Users/me'' \<and> outputPath c \<noteq> ''/Users/me/clip.mov'')
   \<and> (\<exists>c. compress_handleSubmit \<lparr> media_state.defaultFile = [], fileType = Some Video \<rparr>
            \<lparr> CompressFormValues.inputFile = [''/Users/me/clip.mov''], quality = [],
              preset = ''high'' \<rparr> = Inr c
        \<and> dirname (outputPath c) = ''/Users/me'' \<and> outputPath c \<noteq> ''/Users/me/clip.mov'')
   \<and> (\<exists>c. convert_handleSubmit
            \<lparr> convert_state.defaultFile = [], fileType = Some Video, maintainQualityBox = False \<rparr>
            \<lparr> ConvertFormValues.inputFile = [''/Users/me/clip.mov''], format = Some ''mov'',
              codec = Some ''libx264'', quality = None, maintainQuality = False \<rparr> = Inr c
        \<and> dirname (outputPath c) = ''/Users/me'' \<and> outputPath c \<noteq> ''/Users/me/clip.mov'')
   \<and> (\<exists>c. resize_image_handleSubmit \<lparr> picker_state.defaultFile = [] \<rparr>
            \<lparr> ResizeImageFormValues.inputFile = [''/Users/me/photo.png''], width = ''800'',
              height = [], maintainAspectRatio = True, quality = ''5'',
              filter = ''lanczos'' \<rparr> = Inr c
        \<and> dirname (outputPath c) = ''/Users/me'' \<and> outputPath c \<noteq> ''/Users/me/photo.png'')
   \<and> (\<exists>c. convert_handleSubmit
            \<lparr> convert_state.defaultFile = [], fileType = Some Audio, maintainQualityBox = False \<rparr>
            \<lparr> ConvertFormValues.inputFile = [''/Users/me/song.mp3''], format = Some ''mp3'',
              codec = None, quality = Some [], maintainQuality = False \<rparr> = Inr c
        \<and> dirname (outputPath c) = ''/Users/me'' \<and> outputPath c = ''/Users/me/song.mp3'')"
proof -
  note inst =
    output_beside_input
      [where rest = "[]"
         and ps = "\<lparr> picker_state.defaultFile = [] \<rparr>"
         and rv = "\<lparr> ResolutionVideoFormValues.inputFile = [''/Users/me/clip.mov''],
                     width = ''1280'', height = ''720'', maintainAspectRatio = False,
                     preset = ''fast'', filter = ''bicubic'', keepAudioBitrate = True \<rparr>"
         and iv = "\<lparr> ResizeImageFormValues.inputFile = [''/Users/me/photo.png''],
                     width = ''800'', height = [], maintainAspectRatio = True,
                     quality = ''5'', filter = ''lanczos'' \<rparr>"
         and ops = dropdown_numbers
         and ms = "\<lparr> media_state.defaultFile = [], fileType = Some Video \<rparr>"
         and sv = "\<lparr> SpeedFormValues.inputFile = [''/Users/me/clip.mov''], speed = ''2.0'',
                     maintainPitch = False, customAudioSpeed = None \<rparr>"
         and rs = "\<lparr> resize_state.defaultFile = [], fileType = VideoFile \<rparr>"
         and uv = "\<lparr> ResizeFormValues.inputFile = [''/Users/me/clip.mov''], width = ''1920'',
                     height = None, maintainAspectRatio = True, filter = ''bicubic'',
                     fileType = VideoFile, quality = None, preset = Some ''medium'',
                     keepAudioBitrate = True \<rparr>"
         and zv = "\<lparr> CompressFormValues.inputFile = [''/Users/me/clip.mov''], quality = [],
                     preset = ''high'' \<rparr>"
         and kind = Video]
  note clip =
    inst [OF sample_paths_absolute(1),
       where cs = "\<lparr> convert_state.defaultFile = [], fileType = Some Video,
                     maintainQualityBox = False \<rparr>"
         and cv = "\<lparr> ConvertFormValues.inputFile = [''/Users/me/clip.mov''],
                     format = Some ''mov'', codec = Some ''libx264'', quality = None,
                     maintainQuality = False \<rparr>"]
  note photo_song =
    inst [where cs = "\<lparr> convert_state.defaultFile = [], fileType = Some Audio,
                     maintainQualityBox = False \<rparr>"
         and cv = "\<lparr> ConvertFormValues.inputFile = [''/Users/me/song.mp3''],
                     format = Some ''mp3'', codec = None, quality = Some [],
                     maintainQuality = False \<rparr>"]
  note photo = photo_song [OF sample_paths_absolute(3)]
  note song = photo_song [OF sample_paths_absolute(2)]
  show ?thesis
    using clip photo song
    by (simp add: slash_free_def tmpl_def truthy_opt_def truthy_def sample_clip sample_song
        sample_photo dropdown_numbers_slash_free [unfolded slash_free_def])
qed






text \<open>
  C5. With the aspect ratio kept, the scale filter fixes the width and leaves the height to
  the transcoder: \<^verbatim>\<open>-2\<close> (an even height) for video, \<^verbatim>\<open>-1\<close> for an image. This
  holds in the Resolution Video, the Resize Image and the unified Resize command; the
  name token is the width followed by \<^verbatim>\<open>p\<close> for video and \<^verbatim>\<open>w\<close> for an image.
\<close>

theorem rescale_keeps_aspect_ratio:
  "(ResolutionVideoFormValues.maintainAspectRatio rv
      \<and> ResolutionVideoFormValues.inputFile rv = p # rest \<longrightarrow>
      (\<exists>c. resolution_video_handleSubmit ps rv = Inr c
         \<and> take 4 (argv c) =
             [''-i'', p, ''-vf'',
              ''scale='' @ ResolutionVideoFormValues.width rv @ '':-2:flags=''
                @ ResolutionVideoFormValues.filter rv]
         \<and> outputPath c =
             join [dirname p,
                   basename p (extname p) @ ''.'' @ ResolutionVideoFormValues.width rv @ ''p''
                     @ (if ResolutionVideoFormValues.preset rv \<noteq> ''medium''
                        then ''.'' @ ResolutionVideoFormValues.preset rv else [])
                     @ extname p]))
   \<and> (ResizeImageFormValues.maintainAspectRatio iv
      \<and> ResizeImageFormValues.inputFile iv = p # rest \<longrightarrow>
      (\<exists>c. resize_image_handleSubmit ps iv = Inr c
         \<and> take 4 (argv c) =
             [''-i'', p, ''-vf'',
              ''scale='' @ ResizeImageFormValues.width iv @ '':-1:flags=''
                @ ResizeImageFormValues.filter iv]
         \<and> outputPath c =
             join [dirname p,
                   basename p (extname p) @ ''.'' @ ResizeImageFormValues.width iv @ ''w''
                     @ (if truthy (ResizeImageFormValues.quality iv)
                        then ''.q'' @ ResizeImageFormValues.quality iv else [])
                     @ extname p]))
   \<and> (ResizeFormValues.maintainAspectRatio uv
      \<and> ResizeFormValues.inputFile uv = p # rest \<longrightarrow>
      (\<exists>c. resize_handleSubmit rs uv = Inr c
         \<and> take 4 (argv c) =
             [''-i'', p, ''-vf'',
              ''scale='' @ ResizeFormValues.width uv
                @ (if ResizeFormValues.fileType uv = VideoFile then '':-2:flags=''
                   else '':-1:flags='')
                @ ResizeFormValues.filter uv]
         \<and> outputPath c =
             join [dirname p,
                   basename p (extname p) @ ''.''
                     @ sanitize (ResizeFormValues.width uv
                          @ (if ResizeFormValues.fileType uv = VideoFile then ''p'' else ''w''))
                     @ (if ResizeFormValues.fileType uv = ImageFile
                           \<and> truthy_opt (ResizeFormValues.quality uv)
                        then ''.q'' @ tmpl (ResizeFormValues.quality uv) else [])
                     @ (if ResizeFormValues.fileType uv = VideoFile
                           \<and> ResizeFormValues.preset uv \<noteq> Some ''medium''
                        then ''.'' @ tmpl (ResizeFormValues.preset uv) else [])
                     @ extname p]))"
  by (cases "ResizeFormValues.fileType uv")
     (simp_all add: resolution_video_handleSubmit_def resize_image_handleSubmit_def
        resize_handleSubmit_def first_file_def Let_def)

text \<open>
  Width 1920 with the bicubic filter on a video gives \<^verbatim>\<open>scale=1920:-2:flags=bicubic\<close>
  and the suffix \<^verbatim>\<open>1920p\<close>.
\<close>

theorem rescale_keeps_aspect_ratio_witness:
  "resolution_video_handleSubmit \<lparr> picker_state.defaultFile = [] \<rparr>
     \<lparr> ResolutionVideoFormValues.inputFile = [''/Users/me/clip.mov''], width = ''1920'',
       height = [], maintainAspectRatio = True, preset = ''medium'', filter = ''bicubic'',
       keepAudioBitrate = True \<rparr>
   = Inr \<lparr> argv = [''-i'', ''/Users/me/clip.mov'', ''-vf'', ''scale=1920:-2:flags=bicubic'',
                    ''-preset'', ''medium'', ''-c:a'', ''copy'', ''-y'',
                    ''/Users/me/clip.1920p.mov''],
            outputPath = ''/Users/me/clip.1920p.mov'' \<rparr>
   \<and> (\<exists>c. resize_image_handleSubmit \<lparr> picker_state.defaultFile = [] \<rparr>
            \<lparr> ResizeImageFormValues.inputFile = [''/Users/me/photo.png''], width = ''800'',
              height = [], maintainAspectRatio = True, quality = [], filter = ''lanczos'' \<rparr>
          = Inr c
        \<and> take 4 (argv c) = [''-i'', ''/Users/me/photo.png'', ''-vf'', ''scale=800:-1:flags=lanczos'']
        \<and> outputPath c = ''/Users/me/photo.800w.png'')
   \<and> (\<exists>c. resize_handleSubmit \<lparr> resize_state.defaultFile = [], fileType = VideoFile \<rparr>
            \<lparr> ResizeFormValues.inputFile = [''/Users/me/clip.mov''], width = ''1920'',
              height = None, maintainAspectRatio = True, filter = ''bicubic'',
              fileType = VideoFile, quality = None, preset = Some ''medium'',
              keepAudioBitrate = True \<rparr>
          = Inr c
        \<and> take 4 (argv c) = [''-i'', ''/Users/me/clip.mov'', ''-vf'', ''scale=1920:-2:flags=bicubic'']
        \<and> outputPath c = ''/Users/me/clip.1920p.mov'')"
proof -
  have j: "join [''/Users/me'', ''clip.1920p.mov''] = ''/Users/me/clip.1920p.mov''"
    "join [''/Users/me'', ''photo.800w.png''] = ''/Users/me/photo.800w.png''"
    by code_simp+
  have s: "sanitize ''1920p'' = ''1920p''"
    by code_simp
  have v: "resolution_video_handleSubmit \<lparr> picker_state.defaultFile = [] \<rparr>
     \<lparr> ResolutionVideoFormValues.inputFile = [''/Users/me/clip.mov''], width = ''1920'',
       height = [], maintainAspectRatio = True, preset = ''medium'', filter = ''bicubic'',
       keepAudioBitrate = True \<rparr>
   = Inr \<lparr> argv = [''-i'', ''/Users/me/clip.mov'', ''-vf'', ''scale=1920:-2:flags=bicubic'',
                    ''-preset'', ''medium'', ''-c:a'', ''copy'', ''-y'',
                    ''/Users/me/clip.1920p.mov''],
            outputPath = ''/Users/me/clip.1920p.mov'' \<rparr>"
    by (simp add: resolution_video_handleSubmit_def first_file_def Let_def sample_clip j)
  show ?thesis
    using rescale_keeps_aspect_ratio
      [of "\<lparr> ResolutionVideoFormValues.inputFile = [''/Users/me/clip.mov''], width = ''1920'',
             height = [], maintainAspectRatio = True, preset = ''medium'', filter = ''bicubic'',
             keepAudioBitrate = True \<rparr>"
          "''/Users/me/clip.mov''" "[]" "\<lparr> picker_state.defaultFile = [] \<rparr>"
          "\<lparr> ResizeImageFormValues.inputFile = [''/Users/me/clip.mov''], width = ''800'',
              height = [], maintainAspectRatio = True, quality = [], filter = ''lanczos'' \<rparr>"
          "\<lparr> ResizeFormValues.inputFile = [''/Users/me/clip.mov''], width = ''1920'',
              height = None, maintainAspectRatio = True, filter = ''bicubic'',
              fileType = VideoFile, quality = None, preset = Some ''medium'',
              keepAudioBitrate = True \<rparr>"
          "\<lparr> resize_state.defaultFile = [], fileType = VideoFile \<rparr>"]
      rescale_keeps_aspect_ratio
      [of _ "''/Users/me/photo.png''" "[]" "\<lparr> picker_state.defaultFile = [] \<rparr>"
          "\<lparr> ResizeImageFormValues.inputFile = [''/Users/me/photo.png''], width = ''800'',
              height = [], maintainAspectRatio = True, quality = [], filter = ''lanczos'' \<rparr>"]
    by (simp add: v sample_clip sample_photo j s truthy_def)
qed


text \<open>
  C6. For a video the Speed command names its output with the suffix \<^verbatim>\<open>{speed}x\<close>,
  followed by \<^verbatim>\<open>.a{audioSpeed}x\<close> exactly when the audio speed is not equal
  (\<^verbatim>\<open>!==\<close>) to the video speed, followed by \<^verbatim>\<open>.pitch\<close> exactly when the pitch is
  maintained. With the speed field \<^verbatim>\<open>2.0\<close>, printed as \<^verbatim>\<open>2\<close>, no custom audio speed
  and the pitch maintained, the audio filter resamples at 44100*2 and back to 44100, and
  the suffix is \<^verbatim>\<open>2x.pitch\<close>.
\<close>

theorem speed_video_suffix:
  assumes "media_state.fileType st = Some Video"
    and "SpeedFormValues.inputFile values = p # rest"
  shows
    "(\<exists>c. speed_handleSubmit ops st values = Inr c
        \<and> outputPath c =
            join [dirname p,
                  basename p (extname p) @ ''.''
                    @ numberToString ops (parseFloat ops (speed values)) @ ''x''
                    @ (if strictNotEqual ops
                            (if truthy_opt (customAudioSpeed values)
                             then parseFloat ops (tmpl (customAudioSpeed values))
                             else parseFloat ops (speed values))
                            (parseFloat ops (speed values))
                       then ''.a''
                              @ numberToString ops
                                  (if truthy_opt (customAudioSpeed values)
                                   then parseFloat ops (tmpl (customAudioSpeed values))
                                   else parseFloat ops (speed values))
                              @ ''x''
                       else [])
                    @ (if maintainPitch values then ''.pitch'' else [])
                    @ extname p])
     \<and> (speed values = ''2.0'' \<and> maintainPitch values
          \<and> \<not> truthy_opt (customAudioSpeed values)
          \<and> numberToString ops (parseFloat ops ''2.0'') = ''2''
          \<and> \<not> strictNotEqual ops (parseFloat ops ''2.0'') (parseFloat ops ''2.0'') \<longrightarrow>
          (\<exists>c. speed_handleSubmit ops st values = Inr c
             \<and> argv c ! 4 = ''-filter:a''
             \<and> argv c ! 5 = ''asetrate=44100*2,aresample=44100,atempo=1''
             \<and> outputPath c =
                 join [dirname p, basename p (extname p) @ ''.2x.pitch'' @ extname p]))"
  using assms
  by (simp add: speed_handleSubmit_def first_file_def Let_def)

text \<open>The example, with the number primitives tabulated on the dropdown's values.\<close>

theorem speed_video_suffix_witness:
  "\<exists>c. speed_handleSubmit dropdown_numbers
          \<lparr> media_state.defaultFile = [], fileType = Some Video \<rparr>
          \<lparr> SpeedFormValues.inputFile = [''/Users/me/clip.mov''], speed = ''2.0'',
            maintainPitch = True, customAudioSpeed = None \<rparr> = Inr c
      \<and> argv c ! 4 = ''-filter:a''
      \<and> argv c ! 5 = ''asetrate=44100*2,aresample=44100,atempo=1''
      \<and> outputPath c = ''/Users/me/clip.2x.pitch.mov''"
proof -
  have j: "join [''/Users/me'', ''clip.2x.pitch.mov''] = ''/Users/me/clip.2x.pitch.mov''"
    by code_simp
  show ?thesis
    using speed_video_suffix
      [of "\<lparr> media_state.defaultFile = [], fileType = Some Video \<rparr>"
          "\<lparr> SpeedFormValues.inputFile = [''/Users/me/clip.mov''], speed = ''2.0'',
            maintainPitch = True, customAudioSpeed = None \<rparr>"
          "''/Users/me/clip.mov''" "[]" dropdown_numbers]
    by (simp add: dropdown_numbers_def truthy_opt_def sample_clip j)
qed


text \<open>
  C7. In the Compress command the value that reaches the argument list and the output name
  is the quality typed into the form whenever one was typed, whatever the preset says;
  with the field left empty it is the entry of \<^verbatim>\<open>QUALITY_PRESETS\<close> for the media
  kind and the preset (one of the table's five keys). For audio and the preset
  \<^verbatim>\<open>medium\<close> that entry is 192, the bitrate argument is \<^verbatim>\<open>192k\<close> and the name
  suffix is \<^verbatim>\<open>192kbps\<close>.
\<close>

theorem compress_quality_precedence:
  "(media_state.fileType st = Some kind
      \<and> CompressFormValues.inputFile values = p # rest
      \<and> (if truthy (CompressFormValues.quality values)
         then v = CompressFormValues.quality values
         else map_of (QUALITY_PRESETS kind) (CompressFormValues.preset values) = Some v) \<longrightarrow>
      compress_handleSubmit st values =
        Inr (case kind of
               Video \<Rightarrow>
                 \<lparr> argv = [Some ''-i'', Some p, Some ''-crf'', Some v, Some ''-preset'',
                            Some ''medium'', Some ''-y'',
                            Some (join [dirname p,
                                        basename p (extname p) @ ''.crf'' @ v @ extname p])],
                   outputPath = join [dirname p,
                                      basename p (extname p) @ ''.crf'' @ v @ extname p] \<rparr>
             | Audio \<Rightarrow>
                 \<lparr> argv = [Some ''-i'', Some p, Some ''-b:a'', Some (v @ ''k''), Some ''-y'',
                            Some (join [dirname p,
                                        basename p (extname p) @ ''.'' @ v @ ''kbps''
                                          @ extname p])],
                   outputPath = join [dirname p,
                                      basename p (extname p) @ ''.'' @ v @ ''kbps''
                                        @ extname p] \<rparr>
             | Image \<Rightarrow>
                 \<lparr> argv = [Some ''-i'', Some p, Some ''-q:v'', Some v, Some ''-y'',
                            Some (join [dirname p,
                                        basename p (extname p) @ ''.q'' @ v @ extname p])],
                   outputPath = join [dirname p,
                                      basename p (extname p) @ ''.q'' @ v @ extname p] \<rparr>))
   \<and> (truthy (CompressFormValues.quality values) \<longrightarrow>
        compress_handleSubmit st (values\<lparr>CompressFormValues.preset := other\<rparr>)
          = compress_handleSubmit st values)
   \<and> map_of (QUALITY_PRESETS Audio) ''medium'' = Some ''192''
   \<and> (\<not> truthy (CompressFormValues.quality values)
        \<and> CompressFormValues.preset values = ''medium''
        \<and> media_state.fileType st = Some Audio
        \<and> CompressFormValues.inputFile values = p # rest \<longrightarrow>
        compress_handleSubmit st values =
          Inr \<lparr> argv = [Some ''-i'', Some p, Some ''-b:a'', Some ''192k'', Some ''-y'',
                         Some (join [dirname p,
                                     basename p (extname p) @ ''.192kbps'' @ extname p])],
                 outputPath = join [dirname p,
                                    basename p (extname p) @ ''.192kbps'' @ extname p] \<rparr>)"
proof (intro conjI impI)
  assume a: "media_state.fileType st = Some kind
      \<and> CompressFormValues.inputFile values = p # rest
      \<and> (if truthy (CompressFormValues.quality values)
         then v = CompressFormValues.quality values
         else map_of (QUALITY_PRESETS kind) (CompressFormValues.preset values) = Some v)"
  then have ft: "media_state.fileType st = Some kind"
    and inp: "CompressFormValues.inputFile values = p # rest"
    and q: "qualityValue (Some kind) values = Inr (Some v)"
    by (simp_all add: qualityValue_def split: if_splits)
  show "compress_handleSubmit st values =
        Inr (case kind of
               Video \<Rightarrow>
                 \<lparr> argv = [Some ''-i'', Some p, Some ''-crf'', Some v, Some ''-preset'',
                            Some ''medium'', Some ''-y'',
                            Some (join [dirname p,
                                        basename p (extname p) @ ''.crf'' @ v @ extname p])],
                   outputPath = join [dirname p,
                                      basename p (extname p) @ ''.crf'' @ v @ extname p] \<rparr>
             | Audio \<Rightarrow>
                 \<lparr> argv = [Some ''-i'', Some p, Some ''-b:a'', Some (v @ ''k''), Some ''-y'',
                            Some (join [dirname p,
                                        basename p (extname p) @ ''.'' @ v @ ''kbps''
                                          @ extname p])],
                   outputPath = join [dirname p,
                                      basename p (extname p) @ ''.'' @ v @ ''kbps''
                                        @ extname p] \<rparr>
             | Image \<Rightarrow>
                 \<lparr> argv = [Some ''-i'', Some p, Some ''-q:v'', Some v, Some ''-y'',
                            Some (join [dirname p,
                                        basename p (extname p) @ ''.q'' @ v @ extname p])],
                   outputPath = join [dirname p,
                                      basename p (extname p) @ ''.q'' @ v @ extname p] \<rparr>)"
    unfolding compress_handleSubmit_def ft using q inp
    by (cases kind) (simp_all add: first_file_def tmpl_def Let_def)
next
  assume "truthy (CompressFormValues.quality values)"
  then have "qualityValue (media_state.fileType st)
                 (values\<lparr>CompressFormValues.preset := other\<rparr>)
               = qualityValue (media_state.fileType st) values"
    by (simp add: qualityValue_def)
  then show "compress_handleSubmit st (values\<lparr>CompressFormValues.preset := other\<rparr>)
                 = compress_handleSubmit st values"
    by (simp add: compress_handleSubmit_def Let_def split: sum.splits)
next
  show "map_of (QUALITY_PRESETS Audio) ''medium'' = Some ''192''"
    by (simp add: QUALITY_PRESETS_def)
next
  assume "\<not> truthy (CompressFormValues.quality values)
        \<and> CompressFormValues.preset values = ''medium''
        \<and> media_state.fileType st = Some Audio
        \<and> CompressFormValues.inputFile values = p # rest"
  then show "compress_handleSubmit st values =
          Inr \<lparr> argv = [Some ''-i'', Some p, Some ''-b:a'', Some ''192k'', Some ''-y'',
                         Some (join [dirname p,
                                     basename p (extname p) @ ''.192kbps'' @ extname p])],
                 outputPath = join [dirname p,
                                    basename p (extname p) @ ''.192kbps'' @ extname p] \<rparr>"
    by (simp add: compress_handleSubmit_def qualityValue_def QUALITY_PRESETS_def
        first_file_def tmpl_def Let_def)
qed

text \<open>
  A typed quality of 160 reaches the argument list and the name and beats the preset; an
  empty one resolves to 33 for video under \<^verbatim>\<open>very low\<close> and to 192 for audio under
  \<^verbatim>\<open>medium\<close>.
\<close>

theorem compress_quality_precedence_witness:
  "compress_handleSubmit \<lparr> media_state.defaultFile = [], fileType = Some Audio \<rparr>
     \<lparr> CompressFormValues.inputFile = [''/Users/me/song.mp3''], quality = ''160'',
       preset = ''medium'' \<rparr>
   = Inr \<lparr> argv = [Some ''-i'', Some ''/Users/me/song.mp3'', Some ''-b:a'', Some ''160k'',
                    Some ''-y'', Some ''/Users/me/song.160kbps.mp3''],
            outputPath = ''/Users/me/song.160kbps.mp3'' \<rparr>
   \<and> compress_handleSubmit \<lparr> media_state.defaultFile = [], fileType = Some Audio \<rparr>
        \<lparr> CompressFormValues.inputFile = [''/Users/me/song.mp3''], quality = ''160'',
          preset = ''low'' \<rparr>
      = compress_handleSubmit \<lparr> media_state.defaultFile = [], fileType = Some Audio \<rparr>
          \<lparr> CompressFormValues.inputFile = [''/Users/me/song.mp3''], quality = ''160'',
            preset = ''medium'' \<rparr>
   \<and> compress_handleSubmit \<lparr> media_state.defaultFile = [], fileType = Some Video \<rparr>
        \<lparr> CompressFormValues.inputFile = [''/Users/me/clip.mov''], quality = [],
          preset = ''very low'' \<rparr>
      = Inr \<lparr> argv = [Some ''-i'', Some ''/Users/me/clip.mov'', Some ''-crf'', Some ''33'',
                       Some ''-preset'', Some ''medium'', Some ''-y'',
                       Some ''/Users/me/clip.crf33.mov''],
               outputPath = ''/Users/me/clip.crf33.mov'' \<rparr>
   \<and> compress_handleSubmit \<lparr> media_state.defaultFile = [], fileType = Some Audio \<rparr>
        \<lparr> CompressFormValues.inputFile = [''/Users/me/song.mp3''], quality = [],
          preset = ''medium'' \<rparr>
      = Inr \<lparr> argv = [Some ''-i'', Some ''/Users/me/song.mp3'', Some ''-b:a'', Some ''192k'',
                       Some ''-y'', Some ''/Users/me/song.192kbps.mp3''],
               outputPath = ''/Users/me/song.192kbps.mp3'' \<rparr>"
proof -
  have j: "join [''/Users/me'', ''song.192kbps.mp3''] = ''/Users/me/song.192kbps.mp3''"
    "join [''/Users/me'', ''song.160kbps.mp3''] = ''/Users/me/song.160kbps.mp3''"
    "join [''/Users/me'', ''clip.crf33.mov''] = ''/Users/me/clip.crf33.mov''"
    by code_simp+
  note typed =
    compress_quality_precedence
      [where st = "\<lparr> media_state.defaultFile = [], fileType = Some Audio \<rparr>"
         and kind = Audio and p = "''/Users/me/song.mp3''" and rest = "[]"
         and v = "''160''" and other = "''low''",
       of "\<lparr> CompressFormValues.inputFile = [''/Users/me/song.mp3''],
                         quality = ''160'', preset = ''medium'' \<rparr>"]
  note video =
    compress_quality_precedence
      [where st = "\<lparr> media_state.defaultFile = [], fileType = Some Video \<rparr>"
         and kind = Video and p = "''/Users/me/clip.mov''" and rest = "[]"
         and v = "''33''" and other = "''low''",
       of "\<lparr> CompressFormValues.inputFile = [''/Users/me/clip.mov''],
                         quality = [], preset = ''very low'' \<rparr>"]
  note medium =
    compress_quality_precedence
      [where st = "\<lparr> media_state.defaultFile = [], fileType = Some Audio \<rparr>"
         and kind = Audio and p = "''/Users/me/song.mp3''" and rest = "[]"
         and v = "''192''" and other = "''low''",
       of "\<lparr> CompressFormValues.inputFile = [''/Users/me/song.mp3''],
                         quality = [], preset = ''medium'' \<rparr>"]
  show ?thesis
    using typed video medium
    by (simp add: truthy_def j QUALITY_PRESETS_def sample_song sample_clip)
qed


text \<open>
  C8. Converting a video with codec \<^verbatim>\<open>libx264\<close> and maximum quality requested puts
  \<^verbatim>\<open>-crf 0 -preset veryslow\<close> into the argument list, and the output name is the
  base name followed by \<^verbatim>\<open>.libx264.lossless\<close> and then the target extension.
\<close>

theorem convert_libx264_lossless:
  assumes "convert_state.fileType st = Some Video"
    and "ConvertFormValues.codec values = Some ''libx264''"
    and "ConvertFormValues.maintainQuality values"
    and "ConvertFormValues.inputFile values = inputPath # rest"
  shows "convert_handleSubmit st values =
           Inr \<lparr> argv = [''-i'', inputPath, ''-c:v'', ''libx264'', ''-crf'', ''0'',
                          ''-preset'', ''veryslow'', ''-c:a'', ''copy'', ''-y'',
                          join [dirname inputPath,
                                basename inputPath (extname inputPath) @ ''.libx264.lossless''
                                  @ ''.'' @ tmpl (ConvertFormValues.format values)]],
                  outputPath =
                    join [dirname inputPath,
                          basename inputPath (extname inputPath) @ ''.libx264.lossless''
                            @ ''.'' @ tmpl (ConvertFormValues.format values)] \<rparr>"
  using assms
  by (simp add: convert_handleSubmit_def convert_video_def first_file_def truthy_opt_def
      truthy_def tmpl_def Let_def)

text \<open>The same on a concrete request.\<close>

theorem convert_libx264_lossless_witness:
  "convert_handleSubmit
     \<lparr> convert_state.defaultFile = [], fileType = Some Video, maintainQualityBox = True \<rparr>
     \<lparr> ConvertFormValues.inputFile = [''/Users/me/clip.mov''], format = Some ''mp4'',
       codec = Some ''libx264'', quality = None, maintainQuality = True \<rparr>
   = Inr \<lparr> argv = [''-i'', ''/Users/me/clip.mov'', ''-c:v'', ''libx264'', ''-crf'', ''0'',
                    ''-preset'', ''veryslow'', ''-c:a'', ''copy'', ''-y'',
                    ''/Users/me/clip.libx264.lossless.mp4''],
            outputPath = ''/Users/me/clip.libx264.lossless.mp4'' \<rparr>"
proof -
  have "join [dirname ''/Users/me/clip.mov'',
              basename ''/Users/me/clip.mov'' (extname ''/Users/me/clip.mov'')
                @ ''.libx264.lossless'' @ ''.'' @ tmpl (Some ''mp4'')]
        = ''/Users/me/clip.libx264.lossless.mp4''"
    by code_simp
  then show ?thesis
    using convert_libx264_lossless
      [of "\<lparr> convert_state.defaultFile = [], fileType = Some Video, maintainQualityBox = True \<rparr>"
          "\<lparr> ConvertFormValues.inputFile = [''/Users/me/clip.mov''], format = Some ''mp4'',
             codec = Some ''libx264'', quality = None, maintainQuality = True \<rparr>"
          "''/Users/me/clip.mov''" "[]"]
    by simp
qed


text \<open>
  C9. Two submissions with the same form values and the same media kind compile to the
  same result: of the component state a handler closes over (the pre-selected file, the
  media kind, the state of the quality checkbox) only the media kind reaches the argument
  list and the output path, and the number primitives are the same functions in both runs.
\<close>

theorem compile_depends_only_on_request:
  "(convert_state.fileType s1 = convert_state.fileType s2 \<longrightarrow>
      convert_handleSubmit s1 cv = convert_handleSubmit s2 cv)
   \<and> resolution_video_handleSubmit p1 rv = resolution_video_handleSubmit p2 rv
   \<and> resize_image_handleSubmit p1 iv = resize_image_handleSubmit p2 iv
   \<and> (media_state.fileType m1 = media_state.fileType m2 \<longrightarrow>
        speed_handleSubmit ops m1 sv = speed_handleSubmit ops m2 sv)
   \<and> resize_handleSubmit r1 uv = resize_handleSubmit r2 uv
   \<and> (media_state.fileType m1 = media_state.fileType m2 \<longrightarrow>
        compress_handleSubmit m1 zv = compress_handleSubmit m2 zv)"
proof (intro conjI impI)
  assume eq: "convert_state.fileType s1 = convert_state.fileType s2"
  show "convert_handleSubmit s1 cv = convert_handleSubmit s2 cv"
    unfolding convert_handleSubmit_def eq by (rule refl)
next
  show "resolution_video_handleSubmit p1 rv = resolution_video_handleSubmit p2 rv"
    unfolding resolution_video_handleSubmit_def by (rule refl)
next
  show "resize_image_handleSubmit p1 iv = resize_image_handleSubmit p2 iv"
    unfolding resize_image_handleSubmit_def by (rule refl)
next
  assume eq: "media_state.fileType m1 = media_state.fileType m2"
  show "speed_handleSubmit ops m1 sv = speed_handleSubmit ops m2 sv"
    unfolding speed_handleSubmit_def eq by (rule refl)
next
  show "resize_handleSubmit r1 uv = resize_handleSubmit r2 uv"
    unfolding resize_handleSubmit_def by (rule refl)
next
  assume eq: "media_state.fileType m1 = media_state.fileType m2"
  show "compress_handleSubmit m1 zv = compress_handleSubmit m2 zv"
    unfolding compress_handleSubmit_def eq by (rule refl)
qed

text \<open>States that differ in everything but the media kind.\<close>

theorem compile_depends_only_on_request_witness:
  "convert_handleSubmit
     \<lparr> convert_state.defaultFile = [], fileType = Some Video, maintainQualityBox = False \<rparr>
     \<lparr> ConvertFormValues.inputFile = [''/Users/me/clip.mov''], format = Some ''mp4'',
       codec = Some ''libx265'', quality = Some ''28'', maintainQuality = False \<rparr>
   = convert_handleSubmit
       \<lparr> convert_state.defaultFile = [''/tmp/other.mov''], fileType = Some Video,
         maintainQualityBox = True \<rparr>
       \<lparr> ConvertFormValues.inputFile = [''/Users/me/clip.mov''], format = Some ''mp4'',
         codec = Some ''libx265'', quality = Some ''28'', maintainQuality = False \<rparr>
   \<and> speed_handleSubmit dropdown_numbers
        \<lparr> media_state.defaultFile = [], fileType = Some Video \<rparr>
        \<lparr> SpeedFormValues.inputFile = [''/Users/me/clip.mov''], speed = ''0.5'',
          maintainPitch = False, customAudioSpeed = None \<rparr>
     = speed_handleSubmit dropdown_numbers
         \<lparr> media_state.defaultFile = [''/tmp/other.mov''], fileType = Some Video \<rparr>
         \<lparr> SpeedFormValues.inputFile = [''/Users/me/clip.mov''], speed = ''0.5'',
           maintainPitch = False, customAudioSpeed = None \<rparr>
   \<and> compress_handleSubmit
        \<lparr> media_state.defaultFile = [], fileType = Some Video \<rparr>
        \<lparr> CompressFormValues.inputFile = [''/Users/me/clip.mov''], quality = [],
          preset = ''high'' \<rparr>
     = compress_handleSubmit
        \<lparr> media_state.defaultFile = [''/tmp/other.mov''], fileType = Some Video \<rparr>
        \<lparr> CompressFormValues.inputFile = [''/Users/me/clip.mov''], quality = [],
          preset = ''high'' \<rparr>"
  using compile_depends_only_on_request
    [where ?s1.0 = "\<lparr> convert_state.defaultFile = [], fileType = Some Video,
                     maintainQualityBox = False \<rparr>"
       and ?s2.0 = "\<lparr> convert_state.defaultFile = [''/tmp/other.mov''], fileType = Some Video,
                     maintainQualityBox = True \<rparr>"
       and cv = "\<lparr> ConvertFormValues.inputFile = [''/Users/me/clip.mov''], format = Some ''mp4'',
                   codec = Some ''libx265'', quality = Some ''28'', maintainQuality = False \<rparr>"
       and ?m1.0 = "\<lparr> media_state.defaultFile = [], fileType = Some Video \<rparr>"
       and ?m2.0 = "\<lparr> media_state.defaultFile = [''/tmp/other.mov''], fileType = Some Video \<rparr>"
       and ops = dropdown_numbers
       and sv = "\<lparr> SpeedFormValues.inputFile = [''/Users/me/clip.mov''], speed = ''0.5'',
                   maintainPitch = False, customAudioSpeed = None \<rparr>"
       and zv = "\<lparr> CompressFormValues.inputFile = [''/Users/me/clip.mov''], quality = [],
                   preset = ''high'' \<rparr>"]
  by simp


text \<open>
  C10. In the unified Resize command the resolution token of the output name is the text
  \<^verbatim>\<open>{width}p\<close>, \<^verbatim>\<open>{width}w\<close> or \<^verbatim>\<open>{width}x{height}\<close> with every character
  other than an ASCII letter, a digit, a dot or a hyphen removed, whatever the width and
  height fields contain.
\<close>

theorem resize_resolution_sanitized:
  assumes "ResizeFormValues.inputFile uv = p # rest"
  shows "\<exists>c tok.
           resize_handleSubmit rs uv = Inr c
           \<and> outputPath c =
               join [dirname p,
                     basename p (extname p) @ ''.'' @ tok
                       @ (if ResizeFormValues.fileType uv = ImageFile
                             \<and> truthy_opt (ResizeFormValues.quality uv)
                          then ''.q'' @ tmpl (ResizeFormValues.quality uv) else [])
                       @ (if ResizeFormValues.fileType uv = VideoFile
                             \<and> ResizeFormValues.preset uv \<noteq> Some ''medium''
                          then ''.'' @ tmpl (ResizeFormValues.preset uv) else [])
                       @ extname p]
           \<and> tok =
               List.filter
                 (\<lambda>ch. ch \<in> set ''abcdefghijklmnopqrstuvwxyzABCDEFGHIJKLMNOPQRSTUVWXYZ0123456789.-'')
                 (if ResizeFormValues.fileType uv = VideoFile
                  then ResizeFormValues.width uv @ ''p''
                  else if truthy_opt (ResizeFormValues.height uv)
                          \<and> \<not> ResizeFormValues.maintainAspectRatio uv
                  then ResizeFormValues.width uv @ ''x'' @ tmpl (ResizeFormValues.height uv)
                  else ResizeFormValues.width uv @ ''w'')
           \<and> set tok
               \<subseteq> set ''abcdefghijklmnopqrstuvwxyzABCDEFGHIJKLMNOPQRSTUVWXYZ0123456789.-''"
proof -
  have san: "sanitize s =
      List.filter
        (\<lambda>ch. ch \<in> set ''abcdefghijklmnopqrstuvwxyzABCDEFGHIJKLMNOPQRSTUVWXYZ0123456789.-'') s"
    for s
    unfolding sanitize_def by (rule filter_cong) (simp_all only: resolution_char_iff)
  have sub: "set (sanitize s)
      \<subseteq> set ''abcdefghijklmnopqrstuvwxyzABCDEFGHIJKLMNOPQRSTUVWXYZ0123456789.-''" for s
    unfolding san by (rule subsetI) (simp only: set_filter mem_Collect_eq)
  define tok where "tok = sanitize
                 (if ResizeFormValues.fileType uv = VideoFile
                  then ResizeFormValues.width uv @ ''p''
                  else if truthy_opt (ResizeFormValues.height uv)
                          \<and> \<not> ResizeFormValues.maintainAspectRatio uv
                  then ResizeFormValues.width uv @ ''x'' @ tmpl (ResizeFormValues.height uv)
                  else ResizeFormValues.width uv @ ''w'')"
  have "\<exists>c. resize_handleSubmit rs uv = Inr c
           \<and> outputPath c =
               join [dirname p,
                     basename p (extname p) @ ''.'' @ tok
                       @ (if ResizeFormValues.fileType uv = ImageFile
                             \<and> truthy_opt (ResizeFormValues.quality uv)
                          then ''.q'' @ tmpl (ResizeFormValues.quality uv) else [])
                       @ (if ResizeFormValues.fileType uv = VideoFile
                             \<and> ResizeFormValues.preset uv \<noteq> Some ''medium''
                          then ''.'' @ tmpl (ResizeFormValues.preset uv) else [])
                       @ extname p]"
    using assms unfolding tok_def
    by (cases "ResizeFormValues.fileType uv")
       (simp_all add: resize_handleSubmit_def first_file_def Let_def)
  moreover have "tok = List.filter
                 (\<lambda>ch. ch \<in> set ''abcdefghijklmnopqrstuvwxyzABCDEFGHIJKLMNOPQRSTUVWXYZ0123456789.-'')
                 (if ResizeFormValues.fileType uv = VideoFile
                  then ResizeFormValues.width uv @ ''p''
                  else if truthy_opt (ResizeFormValues.height uv)
                          \<and> \<not> ResizeFormValues.maintainAspectRatio uv
                  then ResizeFormValues.width uv @ ''x'' @ tmpl (ResizeFormValues.height uv)
                  else ResizeFormValues.width uv @ ''w'')"
    unfolding tok_def by (rule san)
  moreover have "set tok \<subseteq> set ''abcdefghijklmnopqrstuvwxyzABCDEFGHIJKLMNOPQRSTUVWXYZ0123456789.-''"
    unfolding tok_def by (rule sub)
  ultimately show ?thesis by blast
qed

text \<open>A width and a height with blanks, a slash and an underscore.\<close>

theorem resize_resolution_sanitized_witness:
  "\<exists>c. resize_handleSubmit \<lparr> resize_state.defaultFile = [], fileType = ImageFile \<rparr>
          \<lparr> ResizeFormValues.inputFile = [''/Users/me/photo.png''], width = ''8 00/'',
            height = Some ''6_00px'', maintainAspectRatio = False, filter = ''lanczos'',
            fileType = ImageFile, quality = None, preset = None,
            keepAudioBitrate = False \<rparr> = Inr c
      \<and> outputPath c = ''/Users/me/photo.800x600px.png''"
proof -
  have j: "join [''/Users/me'', ''photo.800x600px.png''] = ''/Users/me/photo.800x600px.png''"
    by code_simp
  show ?thesis
    using resize_resolution_sanitized
      [of "\<lparr> ResizeFormValues.inputFile = [''/Users/me/photo.png''], width = ''8 00/'',
            height = Some ''6_00px'', maintainAspectRatio = False, filter = ''lanczos'',
            fileType = ImageFile, quality = None, preset = None,
            keepAudioBitrate = False \<rparr>"
          "''/Users/me/photo.png''" "[]"
          "\<lparr> resize_state.defaultFile = [], fileType = ImageFile \<rparr>"]
    by (simp add: sample_photo j truthy_opt_def truthy_def tmpl_def)
qed

end
